theory Spec2Isabelle
  imports Main "HOL-Library.AList" "HOL-Library.Sublist"
begin

section \<open>Values shared by the repositories\<close>

text \<open>
  A UUID is identified with its canonical text, so \<^verbatim>\<open>str(id)\<close> is the identity. A date is
  its proleptic ordinal (\<^verbatim>\<open>date.toordinal()\<close>), a timestamp a number of ticks.
\<close>

type_synonym uuid = string
type_synonym date = nat
type_synonym timestamp = nat

text \<open>
  JSON values as Python holds them: \<^verbatim>\<open>None\<close>, \<^verbatim>\<open>bool\<close>, \<^verbatim>\<open>int\<close>, \<^verbatim>\<open>str\<close>,
  \<^verbatim>\<open>list\<close> and \<^verbatim>\<open>dict\<close>. A dict is an association list in insertion order with
  distinct keys. Floating-point numbers are left out.
\<close>

datatype json =
    JNull
  | JBool bool
  | JInt int
  | JStr string
  | JList "json list"
  | JObj "(string \<times> json) list"

type_synonym dict = "(string \<times> json) list"

text \<open>
  The exceptions the repository and route code raises, one constructor per raise site:
  \<^item> \<open>JobNotFound job_id\<close> is \<^verbatim>\<open>ValueError(f"Job {job_id} not found")\<close>;
  \<^item> \<open>UpdateFailed id table\<close> is \<^verbatim>\<open>ValueError(f"Failed to update record {id} in {table}")\<close>;
  \<^item> \<open>UpsertFailed table\<close> is \<^verbatim>\<open>ValueError(f"Failed to upsert record in {table}")\<close>;
  \<^item> \<open>TypeError\<close> is what Python raises on \<^verbatim>\<open>x + 1\<close> for a value that is no number
    and on encoding as JSON an object that JSON has no form for; \<open>AttributeError\<close> is what
    it raises on \<^verbatim>\<open>x.append(e)\<close> and on \<^verbatim>\<open>x.data\<close> for a value without the attribute;
  \<^item> \<open>APIError\<close> is the store client's exception for a request the store rejects;
  \<^item> \<open>HTTPException status detail\<close> is FastAPI's, and \<open>RequestValidationError\<close> is what
    FastAPI answers (status 422) to a query parameter outside its declared bounds.
\<close>

datatype error =
    JobNotFound uuid
  | UpdateFailed uuid string
  | UpsertFailed string
  | TypeError
  | AttributeError
  | APIError
  | HTTPException int string
  | RequestValidationError

subsection \<open>Python dictionary and list operations\<close>

definition dict_get :: "dict \<Rightarrow> string \<Rightarrow> json \<Rightarrow> json" where
  \<comment> \<open>\<^verbatim>\<open>d.get(k, default)\<close>\<close>
  "dict_get d k dflt = (case map_of d k of None \<Rightarrow> dflt | Some v \<Rightarrow> v)"

definition dict_set :: "dict \<Rightarrow> string \<Rightarrow> json \<Rightarrow> dict" where
  \<comment> \<open>\<^verbatim>\<open>d[k] = v\<close>: overwrite in place, or append a new key\<close>
  "dict_set d k v = AList.update k v d"

fun py_add1 :: "json \<Rightarrow> error + json" where
  \<comment> \<open>\<^verbatim>\<open>x + 1\<close>; a bool is an int in Python\<close>
  "py_add1 (JInt n) = Inr (JInt (n + 1))"
| "py_add1 (JBool b) = Inr (JInt ((if b then 1 else 0) + 1))"
| "py_add1 _ = Inl TypeError"

fun py_append :: "json \<Rightarrow> json \<Rightarrow> error + json list" where
  \<comment> \<open>\<^verbatim>\<open>xs.append(v)\<close>: only a list has the method\<close>
  "py_append (JList xs) v = Inr (xs @ [v])"
| "py_append _ v = Inl AttributeError"

definition last_n :: "nat \<Rightarrow> 'a list \<Rightarrow> 'a list" where
  \<comment> \<open>\<^verbatim>\<open>xs[-n:]\<close> for \<open>n > 0\<close>\<close>
  "last_n n xs = drop (length xs - n) xs"

definition truthy_str :: "string option \<Rightarrow> bool" where
  \<comment> \<open>\<^verbatim>\<open>if error:\<close> on an \<^verbatim>\<open>Optional[str]\<close>: \<^verbatim>\<open>None\<close> and \<^verbatim>\<open>""\<close> are false\<close>
  "truthy_str e = (case e of None \<Rightarrow> False | Some t \<Rightarrow> t \<noteq> [])"

section \<open>The record store\<close>

text \<open>The rows, as the Pydantic models of \<^verbatim>\<open>models/db\<close> declare them.\<close>

record ingest_job =
  j_id :: uuid
  j_idempotency_key :: string
  j_issue_id :: "uuid option"
  j_status :: string
  j_progress :: dict
  j_error_message :: "string option"
  j_created_at :: timestamp
  j_updated_at :: timestamp

record newspaper =
  n_id :: uuid
  n_name :: string
  n_city :: "string option"
  n_country :: "string option"
  n_start_year :: "int option"
  n_end_year :: "int option"
  n_description :: "string option"
  n_source_type :: string
  n_created_at :: timestamp

record issue =
  i_id :: uuid
  i_newspaper_id :: uuid
  i_issue_date :: date
  i_num_pages :: int
  i_source_type :: string
  i_source_external_id :: "string option"
  i_metadata :: "dict option"
  i_created_at :: timestamp

text \<open>The OCR confidence is a floating-point number that the code only passes on.\<close>

typedecl float

record page =
  p_id :: uuid
  p_issue_id :: uuid
  p_page_number :: int
  p_image_path :: string
  p_ocr_text :: "string option"
  p_ocr_confidence :: "float option"
  p_ocr_provider :: "string option"
  p_ocr_version :: "string option"
  p_ocr_meta :: "dict option"
  p_ingestion_status :: string
  p_created_at :: timestamp
  p_updated_at :: timestamp

text \<open>The create models; a field that is \<^verbatim>\<open>None\<close> is left out of the dumped row.\<close>

record issue_create =
  ic_newspaper_id :: uuid
  ic_issue_date :: date
  ic_num_pages :: int
  ic_source_type :: string
  ic_source_external_id :: "string option"
  ic_metadata :: "dict option"

record page_create =
  pc_issue_id :: uuid
  pc_page_number :: int
  pc_image_path :: string
  pc_ingestion_status :: string

text \<open>
  The store: its tables in heap order, and what it draws on when it inserts a row (the
  identifiers it will generate, and its clock). It enforces no foreign key: the routes
  themselves guard against an issue whose newspaper is missing.
\<close>

record store =
  newspapers :: "newspaper list"
  issues :: "issue list"
  pages :: "page list"
  ingest_jobs :: "ingest_job list"
  next_id :: nat
  id_gen :: "nat \<Rightarrow> uuid"
  clock :: timestamp

text \<open>
  \<^verbatim>\<open>.maybe_single().execute()\<close>: when no row matches, the client returns \<^verbatim>\<open>None\<close> in place
  of a response; one row gives a response whose \<^verbatim>\<open>data\<close> is the row; several rows are an
  error of the client. Reading \<^verbatim>\<open>response.data\<close> when the response is \<^verbatim>\<open>None\<close> raises
  \<^verbatim>\<open>AttributeError\<close>.
\<close>

datatype 'r response = Response "'r option"

fun maybe_single :: "'r list \<Rightarrow> error + 'r response option" where
  "maybe_single [] = Inr None"
| "maybe_single [r] = Inr (Some (Response (Some r)))"
| "maybe_single (r # r' # rs) = Inl APIError"

fun response_data :: "'r response option \<Rightarrow> error + 'r option" where
  \<comment> \<open>\<^verbatim>\<open>response.data\<close>\<close>
  "response_data None = Inl AttributeError"
| "response_data (Some (Response d)) = Inr d"

definition get_by_id :: "('r \<Rightarrow> uuid) \<Rightarrow> 'r list \<Rightarrow> uuid \<Rightarrow> error + 'r option" where
  \<comment> \<open>\<^verbatim>\<open>BaseRepository.get_by_id\<close>, for a table given by its rows and its \<^verbatim>\<open>id\<close> column\<close>
  "get_by_id idc rows i =
     (case maybe_single (filter (\<lambda>r. idc r = i) rows) of
        Inl e \<Rightarrow> Inl e
      | Inr response \<Rightarrow>
          (case response_data response of
             Inl e \<Rightarrow> Inl e
           | Inr (Some row) \<Rightarrow> Inr (Some row)
           | Inr None \<Rightarrow> Inr None))"

text \<open>
  The store's side of \<^verbatim>\<open>.update(data).eq("id", id)\<close> on \<^verbatim>\<open>ingest_jobs\<close>. A column takes
  the values its type allows (\<open>issue_id\<close> and \<open>error_message\<close> are nullable, \<open>status\<close> is
  text, \<open>progress\<close> a JSON object); any other assignment is rejected. An update that names
  no column changes nothing and returns no row, as the store's REST layer answers an
  empty patch. No request of this code names \<open>updated_at\<close>, and the update leaves it as
  it is.
\<close>

fun job_column_ok :: "string \<times> json \<Rightarrow> bool" where
  "job_column_ok (k, v) =
     (if k = ''issue_id'' then (case v of JStr u \<Rightarrow> True | JNull \<Rightarrow> True | _ \<Rightarrow> False)
      else if k = ''status'' then (case v of JStr t \<Rightarrow> True | _ \<Rightarrow> False)
      else if k = ''progress'' then (case v of JObj d \<Rightarrow> True | _ \<Rightarrow> False)
      else if k = ''error_message'' then (case v of JStr t \<Rightarrow> True | JNull \<Rightarrow> True | _ \<Rightarrow> False)
      else False)"

fun set_job_column :: "string \<times> json \<Rightarrow> ingest_job \<Rightarrow> ingest_job" where
  "set_job_column (k, v) j =
     (if k = ''issue_id'' then
        (case v of JStr u \<Rightarrow> j\<lparr>j_issue_id := Some u\<rparr> | JNull \<Rightarrow> j\<lparr>j_issue_id := None\<rparr> | _ \<Rightarrow> j)
      else if k = ''status'' then
        (case v of JStr t \<Rightarrow> j\<lparr>j_status := t\<rparr> | _ \<Rightarrow> j)
      else if k = ''progress'' then
        (case v of JObj d \<Rightarrow> j\<lparr>j_progress := d\<rparr> | _ \<Rightarrow> j)
      else if k = ''error_message'' then
        (case v of JStr t \<Rightarrow> j\<lparr>j_error_message := Some t\<rparr>
                 | JNull \<Rightarrow> j\<lparr>j_error_message := None\<rparr> | _ \<Rightarrow> j)
      else j)"

fun job_write :: "dict \<Rightarrow> ingest_job \<Rightarrow> ingest_job" where
  "job_write [] j = j"
| "job_write (kv # kvs) j = job_write kvs (set_job_column kv j)"

definition jobs_update_eq_id :: "store \<Rightarrow> dict \<Rightarrow> uuid \<Rightarrow> error + (ingest_job list \<times> store)" where
  "jobs_update_eq_id s data i =
     (if data = [] then Inr ([], s)
      else if \<not> list_all job_column_ok data then Inl APIError
      else
        (let rows = map (\<lambda>j. if j_id j = i then job_write data j else j) (ingest_jobs s)
         in Inr (filter (\<lambda>j. j_id j = i) rows, s\<lparr>ingest_jobs := rows\<rparr>)))"

section \<open>Ingest job repository\<close>

definition update ::
  "(store \<Rightarrow> dict \<Rightarrow> uuid \<Rightarrow> error + ('r list \<times> store)) \<Rightarrow> string
     \<Rightarrow> store \<Rightarrow> uuid \<Rightarrow> dict \<Rightarrow> (error + 'r) \<times> store" where
  \<comment> \<open>\<^verbatim>\<open>BaseRepository.update\<close>, for a table given by its update request and its name\<close>
  "update table_update table_name s i data =
     (let update_data = filter (\<lambda>(k, v). v \<noteq> JNull) data in
      case table_update s update_data i of
        Inl e \<Rightarrow> (Inl e, s)
      | Inr (rows, s') \<Rightarrow>
          (case rows of
             [] \<Rightarrow> (Inl (UpdateFailed i table_name), s')
           | r # rs \<Rightarrow> (Inr r, s')))"

definition job_update_data ::
  "uuid option \<Rightarrow> string option \<Rightarrow> dict option \<Rightarrow> string option \<Rightarrow> dict" where
  \<comment> \<open>lines 80 to 89 of \<^verbatim>\<open>update_job\<close>: the dict \<open>update_data\<close>\<close>
  "job_update_data issue_id status progress error_message =
     (let update_data = [];
          update_data = (case issue_id of None \<Rightarrow> update_data
                         | Some u \<Rightarrow> dict_set update_data ''issue_id'' (JStr u));
          update_data = (case status of None \<Rightarrow> update_data
                         | Some t \<Rightarrow> dict_set update_data ''status'' (JStr t));
          update_data = (case progress of None \<Rightarrow> update_data
                         | Some d \<Rightarrow> dict_set update_data ''progress'' (JObj d));
          update_data = (case error_message of None \<Rightarrow> update_data
                         | Some t \<Rightarrow> dict_set update_data ''error_message'' (JStr t))
      in update_data)"

definition update_job ::
  "store \<Rightarrow> uuid \<Rightarrow> uuid option \<Rightarrow> string option \<Rightarrow> dict option \<Rightarrow> string option
     \<Rightarrow> (error + ingest_job) \<times> store" where
  "update_job s job_id issue_id status progress error_message =
     update jobs_update_eq_id ''ingest_jobs'' s job_id
       (job_update_data issue_id status progress error_message)"

definition default_progress :: "int \<Rightarrow> dict" where
  "default_progress pages_total =
     [(''pages_total'', JInt pages_total),
      (''pages_processed'', JInt 0),
      (''pages_succeeded'', JInt 0),
      (''pages_failed'', JInt 0),
      (''current_stage'', JStr ''initializing''),
      (''errors'', JList [])]"

definition merge_progress ::
  "ingest_job \<Rightarrow> int \<Rightarrow> int \<Rightarrow> string \<Rightarrow> string option \<Rightarrow> error + dict" where
  \<comment> \<open>lines 119 to 140 of \<^verbatim>\<open>increment_progress\<close>: the new progress object, computed locally\<close>
  "merge_progress job pages_processed pages_total current_stage err =
     (let progress = (if j_progress job = [] then default_progress pages_total
                      else j_progress job);
          progress = dict_set progress ''pages_processed'' (JInt pages_processed);
          progress = dict_set progress ''pages_total'' (JInt pages_total);
          progress = dict_set progress ''current_stage'' (JStr current_stage)
      in case (if truthy_str err then err else None) of
           Some t \<Rightarrow>
             (case py_add1 (dict_get progress ''pages_failed'' (JInt 0)) of
                Inl e \<Rightarrow> Inl e
              | Inr n \<Rightarrow>
                  (let progress = dict_set progress ''pages_failed'' n in
                   case py_append (dict_get progress ''errors'' (JList [])) (JStr t) of
                     Inl e \<Rightarrow> Inl e
                   | Inr errors \<Rightarrow>
                       Inr (dict_set progress ''errors'' (JList (last_n 10 errors)))))
         | None \<Rightarrow>
             (case py_add1 (dict_get progress ''pages_succeeded'' (JInt 0)) of
                Inl e \<Rightarrow> Inl e
              | Inr n \<Rightarrow> Inr (dict_set progress ''pages_succeeded'' n)))"

definition increment_progress ::
  "store \<Rightarrow> uuid \<Rightarrow> int \<Rightarrow> int \<Rightarrow> string \<Rightarrow> string option \<Rightarrow> (error + ingest_job) \<times> store" where
  "increment_progress s job_id pages_processed pages_total current_stage err =
     (case get_by_id j_id (ingest_jobs s) job_id of
        Inl e \<Rightarrow> (Inl e, s)
      | Inr None \<Rightarrow> (Inl (JobNotFound job_id), s)
      | Inr (Some job) \<Rightarrow>
          (case merge_progress job pages_processed pages_total current_stage err of
             Inl e \<Rightarrow> (Inl e, s)
           | Inr progress \<Rightarrow> update_job s job_id None None (Some progress) None))"

text \<open>
  The row \<^verbatim>\<open>update_job\<close> asks the store to write: each supplied field replaced, each
  omitted field as it was.
\<close>

definition written ::
  "uuid option \<Rightarrow> string option \<Rightarrow> dict option \<Rightarrow> string option \<Rightarrow> ingest_job \<Rightarrow> ingest_job" where
  "written issue_id status progress error_message j =
     j\<lparr>j_issue_id := (case issue_id of None \<Rightarrow> j_issue_id j | Some u \<Rightarrow> Some u),
       j_status := (case status of None \<Rightarrow> j_status j | Some t \<Rightarrow> t),
       j_progress := (case progress of None \<Rightarrow> j_progress j | Some d \<Rightarrow> d),
       j_error_message := (case error_message of None \<Rightarrow> j_error_message j | Some t \<Rightarrow> Some t)\<rparr>"

section \<open>Issue and page repositories\<close>

text \<open>
  The store's side of \<^verbatim>\<open>.upsert(data, on_conflict="newspaper_id,issue_date")\<close>: a row with
  the same key takes the dumped columns and keeps the others (its \<^verbatim>\<open>id\<close> among them);
  with no such row, a new row is inserted with a generated \<^verbatim>\<open>id\<close>. Either way the store
  returns the row.
\<close>

definition issue_conflicts :: "issue_create \<Rightarrow> issue \<Rightarrow> bool" where
  "issue_conflicts d r =
     (i_newspaper_id r = ic_newspaper_id d \<and> i_issue_date r = ic_issue_date d)"

definition issue_overwrite :: "issue_create \<Rightarrow> issue \<Rightarrow> issue" where
  "issue_overwrite d r =
     r\<lparr>i_num_pages := ic_num_pages d,
       i_source_type := ic_source_type d,
       i_source_external_id :=
         (case ic_source_external_id d of None \<Rightarrow> i_source_external_id r | Some t \<Rightarrow> Some t),
       i_metadata := (case ic_metadata d of None \<Rightarrow> i_metadata r | Some m \<Rightarrow> Some m)\<rparr>"

definition issue_insert_row :: "store \<Rightarrow> issue_create \<Rightarrow> issue" where
  "issue_insert_row s d =
     \<lparr>i_id = id_gen s (next_id s),
      i_newspaper_id = ic_newspaper_id d,
      i_issue_date = ic_issue_date d,
      i_num_pages = ic_num_pages d,
      i_source_type = ic_source_type d,
      i_source_external_id = ic_source_external_id d,
      i_metadata = ic_metadata d,
      i_created_at = clock s\<rparr>"

definition issues_upsert :: "store \<Rightarrow> issue_create \<Rightarrow> issue list \<times> store" where
  "issues_upsert s d =
     (if list_ex (issue_conflicts d) (issues s) then
        (let rows = map (\<lambda>r. if issue_conflicts d r then issue_overwrite d r else r) (issues s)
         in (filter (issue_conflicts d) rows, s\<lparr>issues := rows\<rparr>))
      else
        (let r = issue_insert_row s d
         in ([r], s\<lparr>issues := issues s @ [r], next_id := next_id s + 1\<rparr>)))"

definition page_conflicts :: "page_create \<Rightarrow> page \<Rightarrow> bool" where
  "page_conflicts d r = (p_issue_id r = pc_issue_id d \<and> p_page_number r = pc_page_number d)"

definition page_overwrite :: "page_create \<Rightarrow> page \<Rightarrow> page" where
  "page_overwrite d r =
     r\<lparr>p_image_path := pc_image_path d, p_ingestion_status := pc_ingestion_status d\<rparr>"

definition page_insert_row :: "store \<Rightarrow> page_create \<Rightarrow> page" where
  "page_insert_row s d =
     \<lparr>p_id = id_gen s (next_id s),
      p_issue_id = pc_issue_id d,
      p_page_number = pc_page_number d,
      p_image_path = pc_image_path d,
      p_ocr_text = None,
      p_ocr_confidence = None,
      p_ocr_provider = None,
      p_ocr_version = None,
      p_ocr_meta = None,
      p_ingestion_status = pc_ingestion_status d,
      p_created_at = clock s,
      p_updated_at = clock s\<rparr>"

definition pages_upsert :: "store \<Rightarrow> page_create \<Rightarrow> page list \<times> store" where
  "pages_upsert s d =
     (if list_ex (page_conflicts d) (pages s) then
        (let rows = map (\<lambda>r. if page_conflicts d r then page_overwrite d r else r) (pages s)
         in (filter (page_conflicts d) rows, s\<lparr>pages := rows\<rparr>))
      else
        (let r = page_insert_row s d
         in ([r], s\<lparr>pages := pages s @ [r], next_id := next_id s + 1\<rparr>)))"

text \<open>
  What \<^verbatim>\<open>model_dump(exclude_none=True)\<close> hands to the client: a dict whose values are
  Python objects, a \<^verbatim>\<open>UUID\<close> and a \<^verbatim>\<open>date\<close> among them. The client encodes the dict as
  JSON before it sends the request, and the encoder raises \<^verbatim>\<open>TypeError\<close> on an object
  that is neither \<^verbatim>\<open>None\<close>, a number, a string, a list nor a dict.
\<close>

datatype pyval =
    PyInt int
  | PyStr string
  | PyUUID uuid
  | PyDate date
  | PyDict dict

fun json_serializable :: "pyval \<Rightarrow> bool" where
  "json_serializable (PyUUID u) = False"
| "json_serializable (PyDate d) = False"
| "json_serializable v = True"

definition issue_model_dump :: "issue_create \<Rightarrow> (string \<times> pyval) list" where
  "issue_model_dump d =
     [(''newspaper_id'', PyUUID (ic_newspaper_id d)),
      (''issue_date'', PyDate (ic_issue_date d)),
      (''num_pages'', PyInt (ic_num_pages d)),
      (''source_type'', PyStr (ic_source_type d))]
     @ (case ic_source_external_id d of None \<Rightarrow> [] | Some t \<Rightarrow> [(''source_external_id'', PyStr t)])
     @ (case ic_metadata d of None \<Rightarrow> [] | Some m \<Rightarrow> [(''metadata'', PyDict m)])"

definition page_model_dump :: "page_create \<Rightarrow> (string \<times> pyval) list" where
  "page_model_dump d =
     [(''issue_id'', PyUUID (pc_issue_id d)),
      (''page_number'', PyInt (pc_page_number d)),
      (''image_path'', PyStr (pc_image_path d)),
      (''ingestion_status'', PyStr (pc_ingestion_status d))]"

definition execute_upsert ::
  "string \<Rightarrow> (string \<times> pyval) list \<Rightarrow> store \<Rightarrow> 'r list \<times> store \<Rightarrow> (error + 'r) \<times> store" where
  \<comment> \<open>\<^verbatim>\<open>BaseRepository._execute_upsert\<close>: \<open>data\<close> is the dict to send, \<open>response\<close> what the
      store answers once the request is sent\<close>
  "execute_upsert table_name data s response =
     (if \<not> list_all (\<lambda>(k, v). json_serializable v) data then (Inl TypeError, s)
      else
        (case response of
           ([], s') \<Rightarrow> (Inl (UpsertFailed table_name), s')
         | (r # rs, s') \<Rightarrow> (Inr r, s')))"

definition get_by_newspaper_and_date :: "store \<Rightarrow> uuid \<Rightarrow> date \<Rightarrow> error + issue option" where
  "get_by_newspaper_and_date s newspaper_id issue_date =
     (case maybe_single
             (filter (\<lambda>r. i_newspaper_id r = newspaper_id \<and> i_issue_date r = issue_date)
                (issues s)) of
        Inl e \<Rightarrow> Inl e
      | Inr response \<Rightarrow>
          (case response_data response of
             Inl e \<Rightarrow> Inl e
           | Inr (Some row) \<Rightarrow> Inr (Some row)
           | Inr None \<Rightarrow> Inr None))"

definition issue_create_or_get ::
  "store \<Rightarrow> uuid \<Rightarrow> date \<Rightarrow> int \<Rightarrow> string \<Rightarrow> string option \<Rightarrow> dict option
     \<Rightarrow> (error + issue) \<times> store" where
  \<comment> \<open>\<^verbatim>\<open>IssueRepository.create_or_get\<close>\<close>
  "issue_create_or_get s newspaper_id issue_date num_pages source_type source_external_id metadata =
     (case get_by_newspaper_and_date s newspaper_id issue_date of
        Inl e \<Rightarrow> (Inl e, s)
      | Inr (Some existing) \<Rightarrow> (Inr existing, s)
      | Inr None \<Rightarrow>
          (let new_issue =
                 \<lparr>ic_newspaper_id = newspaper_id,
                  ic_issue_date = issue_date,
                  ic_num_pages = num_pages,
                  ic_source_type = source_type,
                  ic_source_external_id = source_external_id,
                  ic_metadata = metadata\<rparr>
           in execute_upsert ''issues'' (issue_model_dump new_issue) s
                (issues_upsert s new_issue)))"

definition get_by_issue_and_number :: "store \<Rightarrow> uuid \<Rightarrow> int \<Rightarrow> error + page option" where
  "get_by_issue_and_number s issue_id page_number =
     (case maybe_single
             (filter (\<lambda>r. p_issue_id r = issue_id \<and> p_page_number r = page_number) (pages s)) of
        Inl e \<Rightarrow> Inl e
      | Inr response \<Rightarrow>
          (case response_data response of
             Inl e \<Rightarrow> Inl e
           | Inr (Some row) \<Rightarrow> Inr (Some row)
           | Inr None \<Rightarrow> Inr None))"

definition page_create_or_get ::
  "store \<Rightarrow> uuid \<Rightarrow> int \<Rightarrow> string \<Rightarrow> string \<Rightarrow> (error + page) \<times> store" where
  \<comment> \<open>\<^verbatim>\<open>PageRepository.create_or_get\<close>\<close>
  "page_create_or_get s issue_id page_number image_path ingestion_status =
     (case get_by_issue_and_number s issue_id page_number of
        Inl e \<Rightarrow> (Inl e, s)
      | Inr (Some existing) \<Rightarrow> (Inr existing, s)
      | Inr None \<Rightarrow>
          (let new_page =
                 \<lparr>pc_issue_id = issue_id,
                  pc_page_number = page_number,
                  pc_image_path = image_path,
                  pc_ingestion_status = ingestion_status\<rparr>
           in execute_upsert ''pages'' (page_model_dump new_page) s
                (pages_upsert s new_page)))"




definition list_by_issue :: "store \<Rightarrow> uuid \<Rightarrow> bool \<Rightarrow> page list" where
  "list_by_issue s issue_id order_by_page_number =
     (let rows = filter (\<lambda>r. p_issue_id r = issue_id) (pages s)
      in if order_by_page_number then sort_key p_page_number rows else rows)"


section \<open>Browse routes\<close>

text \<open>The response models of \<^verbatim>\<open>models/api/responses.py\<close>.\<close>

record newspaper_response =
  nr_id :: uuid
  nr_name :: string
  nr_city :: "string option"
  nr_country :: "string option"
  nr_start_year :: "int option"
  nr_end_year :: "int option"
  nr_description :: "string option"
  nr_source_type :: string
  nr_created_at :: timestamp

record page_response =
  pr_id :: uuid
  pr_issue_id :: uuid
  pr_page_number :: int
  pr_image_path :: string
  pr_ocr_text :: "string option"
  pr_ocr_confidence :: "float option"
  pr_ocr_provider :: "string option"
  pr_ingestion_status :: string
  pr_created_at :: timestamp


record issue_detail_response =
  d_id :: uuid
  d_newspaper_id :: uuid
  d_issue_date :: date
  d_num_pages :: int
  d_source_type :: string
  d_source_external_id :: "string option"
  d_metadata :: "dict option"
  d_created_at :: timestamp
  d_newspaper :: newspaper_response
  d_pages :: "page_response list"


definition newspaper_response_of :: "newspaper \<Rightarrow> newspaper_response" where
  \<comment> \<open>\<^verbatim>\<open>NewspaperResponse.model_validate(newspaper)\<close>\<close>
  "newspaper_response_of n =
     \<lparr>nr_id = n_id n, nr_name = n_name n, nr_city = n_city n, nr_country = n_country n,
      nr_start_year = n_start_year n, nr_end_year = n_end_year n,
      nr_description = n_description n, nr_source_type = n_source_type n,
      nr_created_at = n_created_at n\<rparr>"

definition page_response_of :: "page \<Rightarrow> page_response" where
  \<comment> \<open>\<^verbatim>\<open>PageResponse.model_validate(page)\<close>\<close>
  "page_response_of p =
     \<lparr>pr_id = p_id p, pr_issue_id = p_issue_id p, pr_page_number = p_page_number p,
      pr_image_path = p_image_path p, pr_ocr_text = p_ocr_text p,
      pr_ocr_confidence = p_ocr_confidence p, pr_ocr_provider = p_ocr_provider p,
      pr_ingestion_status = p_ingestion_status p, pr_created_at = p_created_at p\<rparr>"




definition get_issue_detail :: "store \<Rightarrow> uuid \<Rightarrow> error + issue_detail_response" where
  "get_issue_detail s issue_id =
     (case get_by_id i_id (issues s) issue_id of
        Inl e \<Rightarrow> Inl e
      | Inr None \<Rightarrow> Inl (HTTPException 404 ''Issue not found'')
      | Inr (Some issue) \<Rightarrow>
          (case get_by_id n_id (newspapers s) (i_newspaper_id issue) of
             Inl e \<Rightarrow> Inl e
           | Inr None \<Rightarrow> Inl (HTTPException 500 ''Associated newspaper not found'')
           | Inr (Some newspaper) \<Rightarrow>
               (let pages = list_by_issue s issue_id True
                in Inr \<lparr>d_id = i_id issue,
                        d_newspaper_id = i_newspaper_id issue,
                        d_issue_date = i_issue_date issue,
                        d_num_pages = i_num_pages issue,
                        d_source_type = i_source_type issue,
                        d_source_external_id = i_source_external_id issue,
                        d_metadata = i_metadata issue,
                        d_created_at = i_created_at issue,
                        d_newspaper = newspaper_response_of newspaper,
                        d_pages = map page_response_of pages\<rparr>)))"


section \<open>Document processor\<close>

text \<open>
  A Python exception with its message and its \<^verbatim>\<open>__cause__\<close>. The rasterizer
  (\<^verbatim>\<open>pdf2image.convert_from_bytes\<close>) and the encoder (\<^verbatim>\<open>Image.save\<close> into a buffer, then
  the buffer's bytes) are libraries: \<^verbatim>\<open>process\<close> takes them as parameters, each returning
  its result or the exception it raises.
\<close>

datatype py_exception = PyException string "py_exception option"

fun exc_str :: "py_exception \<Rightarrow> string" where
  \<comment> \<open>\<^verbatim>\<open>str(e)\<close>\<close>
  "exc_str (PyException msg c) = msg"

fun exc_cause :: "py_exception \<Rightarrow> py_exception option" where
  "exc_cause (PyException msg c) = c"

type_synonym bytes = "char list"

record pdf_document_processor =
  dpi :: int
  image_format :: string

definition get_document_processor :: pdf_document_processor where
  "get_document_processor = \<lparr>dpi = 300, image_format = ''PNG''\<rparr>"

definition lower_char :: "char \<Rightarrow> char" where
  "lower_char c =
     (let n = (of_char c :: nat) in if 65 \<le> n \<and> n \<le> 90 then char_of (n + 32) else c)"

definition lower :: "string \<Rightarrow> string" where
  \<comment> \<open>\<^verbatim>\<open>str.lower()\<close> on ASCII text\<close>
  "lower t = map lower_char t"

fun save_pages ::
  "('img \<Rightarrow> string \<Rightarrow> py_exception + bytes) \<Rightarrow> string \<Rightarrow> 'img list \<Rightarrow> bytes list
     \<Rightarrow> py_exception + bytes list" where
  \<comment> \<open>the loop of \<^verbatim>\<open>process\<close>, with \<open>page_images\<close> as built so far\<close>
  "save_pages save fmt [] page_images = Inr page_images"
| "save_pages save fmt (img # images) page_images =
     (case save img fmt of
        Inl e \<Rightarrow> Inl e
      | Inr image_bytes \<Rightarrow> save_pages save fmt images (page_images @ [image_bytes]))"

definition process ::
  "(bytes \<Rightarrow> int \<Rightarrow> string \<Rightarrow> py_exception + 'img list)
     \<Rightarrow> ('img \<Rightarrow> string \<Rightarrow> py_exception + bytes)
     \<Rightarrow> pdf_document_processor \<Rightarrow> bytes \<Rightarrow> py_exception + bytes list" where
  "process convert_from_bytes save self file_bytes =
     (case
        (case convert_from_bytes file_bytes (dpi self) (lower (image_format self)) of
           Inl e \<Rightarrow> Inl e
         | Inr images \<Rightarrow> save_pages save (image_format self) images [])
      of
        Inl e \<Rightarrow> Inl (PyException (''Failed to process PDF: '' @ exc_str e) (Some e))
      | Inr page_images \<Rightarrow> Inr page_images)"

section \<open>Workers sharing the store\<close>

text \<open>
  \<^verbatim>\<open>increment_progress\<close> makes two requests to the store, the read of line 115 and the
  write of line 142, and holds the job it read in between. A worker is before the read,
  between the two, or done; a schedule names which worker makes its next request.
\<close>

datatype worker =
    Start uuid int int string "string option"
  | HasRead ingest_job uuid int int string "string option"
  | Done "error + ingest_job"

fun worker_step :: "store \<Rightarrow> worker \<Rightarrow> worker \<times> store" where
  "worker_step s (Start job_id pages_processed pages_total current_stage err) =
     (case get_by_id j_id (ingest_jobs s) job_id of
        Inl e \<Rightarrow> (Done (Inl e), s)
      | Inr None \<Rightarrow> (Done (Inl (JobNotFound job_id)), s)
      | Inr (Some job) \<Rightarrow> (HasRead job job_id pages_processed pages_total current_stage err, s))"
| "worker_step s (HasRead job job_id pages_processed pages_total current_stage err) =
     (case merge_progress job pages_processed pages_total current_stage err of
        Inl e \<Rightarrow> (Done (Inl e), s)
      | Inr progress \<Rightarrow>
          (case update_job s job_id None None (Some progress) None of
             (r, s') \<Rightarrow> (Done r, s')))"
| "worker_step s (Done r) = (Done r, s)"

fun run_schedule :: "nat list \<Rightarrow> store \<times> worker list \<Rightarrow> store \<times> worker list" where
  "run_schedule [] c = c"
| "run_schedule (w # sched) (s, ws) =
     (if w < length ws then
        (case worker_step s (ws ! w) of
           (wk, s') \<Rightarrow> run_schedule sched (s', ws[w := wk]))
      else run_schedule sched (s, ws))"

definition counted :: "store \<Rightarrow> uuid \<Rightarrow> json list" where
  \<comment> \<open>the stored \<open>pages_succeeded\<close> and \<open>pages_failed\<close> of a job\<close>
  "counted s job_id =
     concat (map (\<lambda>j. [dict_get (j_progress j) ''pages_succeeded'' (JInt 0),
                        dict_get (j_progress j) ''pages_failed'' (JInt 0)])
                 (filter (\<lambda>j. j_id j = job_id) (ingest_jobs s)))"


section \<open>A store with one finished job\<close>

definition ex_job :: ingest_job where
  "ex_job =
     \<lparr>j_id = ''job-1'', j_idempotency_key = ''key-1'', j_issue_id = Some ''issue-1'',
      j_status = ''completed'',
      j_progress =
        [(''pages_total'', JInt 10), (''pages_processed'', JInt 4),
         (''pages_succeeded'', JInt 4), (''pages_failed'', JInt 0),
         (''current_stage'', JStr ''ocr''), (''errors'', JList [])],
      j_error_message = Some ''late'', j_created_at = 0, j_updated_at = 0\<rparr>"

definition ex_store :: store where
  "ex_store =
     \<lparr>newspapers = [], issues = [], pages = [], ingest_jobs = [ex_job], next_id = 0,
      id_gen = (\<lambda>n. replicate n CHR ''a''), clock = 0\<rparr>"

section \<open>Stores and libraries to run the code on\<close>

definition ex_issue :: "nat \<Rightarrow> issue" where
  "ex_issue k =
     \<lparr>i_id = replicate (Suc k) CHR ''i'', i_newspaper_id = ''paper-1'',
      i_issue_date = 700000 + k, i_num_pages = 4, i_source_type = ''upload'',
      i_source_external_id = None, i_metadata = None, i_created_at = 0\<rparr>"

definition ex_browse_store :: "nat \<Rightarrow> store" where
  \<comment> \<open>\<open>n\<close> issues of a newspaper that has no row\<close>
  "ex_browse_store n =
     \<lparr>newspapers = [], issues = map ex_issue [0..<n], pages = [], ingest_jobs = [],
      next_id = n, id_gen = (\<lambda>k. replicate (Suc k) CHR ''i''), clock = 0\<rparr>"

definition ex_convert :: "bytes \<Rightarrow> int \<Rightarrow> string \<Rightarrow> py_exception + nat list" where
  \<comment> \<open>a rasterizer: one page per byte of the input, and an error for an empty input\<close>
  "ex_convert file_bytes res fmt =
     (if file_bytes = [] then Inl (PyException ''Unable to get page count.'' None)
      else Inr [0..<length file_bytes])"

definition ex_save :: "nat \<Rightarrow> string \<Rightarrow> py_exception + bytes" where
  \<comment> \<open>an encoder that cannot encode the page numbered 2\<close>
  "ex_save img fmt =
     (if img = 2 then Inl (PyException ''cannot write mode'' None)
      else Inr (fmt @ replicate img CHR ''.''))"

section \<open>Facts about the ingest job repository\<close>

lemma dict_get_set: "dict_get (dict_set d k v) k' dflt = (if k' = k then v else dict_get d k' dflt)"
  by (simp add: dict_get_def dict_set_def update_conv')

lemma lookup_one:
  "(case maybe_single xs of
      Inl e \<Rightarrow> Inl e
    | Inr response \<Rightarrow>
        (case response_data response of
           Inl e \<Rightarrow> Inl e
         | Inr (Some row) \<Rightarrow> Inr (Some row)
         | Inr None \<Rightarrow> Inr None)) =
   (case xs of [] \<Rightarrow> Inl AttributeError | [r] \<Rightarrow> Inr (Some r) | r # r' # rs \<Rightarrow> Inl APIError)"
  by (cases xs rule: maybe_single.cases) simp_all

lemma filter_map_same_id:
  assumes "\<And>j. j_id (f j) = j_id j"
  shows "filter (\<lambda>j. j_id j = i) (map (\<lambda>j. if j_id j = i then f j else j) xs)
       = map f (filter (\<lambda>j. j_id j = i) xs)"
  using assms by (induction xs) auto

lemma j_id_set_job_column: "j_id (set_job_column kv j) = j_id j"
  by (cases kv) (auto split: json.splits)

lemma j_id_job_write: "j_id (job_write d j) = j_id j"
  by (induction d arbitrary: j) (auto simp: j_id_set_job_column simp del: set_job_column.simps)

lemma job_write_update_data:
  "job_write (job_update_data iss st pr em) j = written iss st pr em j"
  by (cases iss; cases st; cases pr; cases em)
     (simp_all add: job_update_data_def written_def dict_set_def)

lemma job_update_data_ok: "list_all job_column_ok (job_update_data iss st pr em)"
  by (cases iss; cases st; cases pr; cases em)
     (simp_all add: job_update_data_def dict_set_def)

lemma job_update_data_no_null:
  "filter (\<lambda>(k, v). v \<noteq> JNull) (job_update_data iss st pr em) = job_update_data iss st pr em"
  by (cases iss; cases st; cases pr; cases em)
     (simp_all add: job_update_data_def dict_set_def)

lemma job_update_data_empty:
  "job_update_data iss st pr em = [] \<longleftrightarrow> iss = None \<and> st = None \<and> pr = None \<and> em = None"
  by (cases iss; cases st; cases pr; cases em)
     (simp_all add: job_update_data_def dict_set_def)

lemma written_nothing: "written None None None None j = j"
  by (simp add: written_def)

lemma j_id_written: "j_id (written iss st pr em j) = j_id j"
  by (simp add: written_def)

lemma update_job_store:
  "snd (update_job s jid iss st pr em) =
     s\<lparr>ingest_jobs := map (\<lambda>j. if j_id j = jid then written iss st pr em j else j) (ingest_jobs s)\<rparr>"
proof (cases "job_update_data iss st pr em = []")
  case True
  then have "iss = None" "st = None" "pr = None" "em = None"
    by (simp_all add: job_update_data_empty)
  then show ?thesis
    using True
    by (simp add: update_job_def update_def jobs_update_eq_id_def written_nothing cong: if_cong)
next
  case False
  then show ?thesis
    by (simp add: update_job_def update_def jobs_update_eq_id_def job_update_data_no_null
        job_update_data_ok job_write_update_data Let_def split: list.splits)
qed

lemma update_job_result:
  "fst (update_job s jid iss st pr em) =
     (if job_update_data iss st pr em = [] then Inl (UpdateFailed jid ''ingest_jobs'')
      else case filter (\<lambda>j. j_id j = jid) (ingest_jobs s) of
             [] \<Rightarrow> Inl (UpdateFailed jid ''ingest_jobs'')
           | j # js \<Rightarrow> Inr (written iss st pr em j))"
  by (simp add: update_job_def update_def jobs_update_eq_id_def job_update_data_no_null
        job_update_data_ok job_write_update_data Let_def filter_map_same_id j_id_written
        split: list.splits)

lemma get_by_id_Some: "get_by_id idc rows i = Inr (Some r) \<longleftrightarrow> filter (\<lambda>r. idc r = i) rows = [r]"
  by (auto simp: get_by_id_def lookup_one split: list.splits)

lemma get_by_id_missing:
  "filter (\<lambda>r. idc r = i) rows = [] \<Longrightarrow> get_by_id idc rows i = Inl AttributeError"
  by (simp add: get_by_id_def lookup_one)

lemma get_by_id_not_None: "get_by_id idc rows i \<noteq> Inr None"
  by (simp add: get_by_id_def lookup_one split: list.splits)

lemma update_job_present:
  assumes "get_by_id j_id (ingest_jobs s) jid = Inr (Some job)"
    and "job_update_data iss st pr em \<noteq> []"
  shows "update_job s jid iss st pr em =
           (Inr (written iss st pr em job),
            s\<lparr>ingest_jobs := map (\<lambda>j. if j_id j = jid then written iss st pr em j else j)
                                (ingest_jobs s)\<rparr>)"
    and "get_by_id j_id (ingest_jobs (snd (update_job s jid iss st pr em))) jid
           = Inr (Some (written iss st pr em job))"
proof -
  from assms(1) have f: "filter (\<lambda>j. j_id j = jid) (ingest_jobs s) = [job]"
    by (simp add: get_by_id_Some)
  have "fst (update_job s jid iss st pr em) = Inr (written iss st pr em job)"
    using assms(2) f by (simp add: update_job_result)
  then show "update_job s jid iss st pr em =
           (Inr (written iss st pr em job),
            s\<lparr>ingest_jobs := map (\<lambda>j. if j_id j = jid then written iss st pr em j else j)
                                (ingest_jobs s)\<rparr>)"
    by (metis prod.collapse update_job_store)
  show "get_by_id j_id (ingest_jobs (snd (update_job s jid iss st pr em))) jid
           = Inr (Some (written iss st pr em job))"
    by (simp add: update_job_store get_by_id_Some filter_map_same_id j_id_written f)
qed

lemma last_n_length: "length (last_n n xs) \<le> n"
  by (simp add: last_n_def)

lemma last_n_snoc: "0 < n \<Longrightarrow> last_n n (xs @ [x]) = last_n (n - 1) xs @ [x]"
  by (cases n) (simp_all add: last_n_def Suc_diff_le)

lemma last_n_short: "length xs \<le> n \<Longrightarrow> last_n n xs = xs"
  by (simp add: last_n_def)

lemma merge_progress_ok:
  assumes succ: "dict_get (j_progress job) ''pages_succeeded'' (JInt 0) = JInt ns"
    and fail: "dict_get (j_progress job) ''pages_failed'' (JInt 0) = JInt nf"
    and errs: "dict_get (j_progress job) ''errors'' (JList []) = JList es"
  shows "\<exists>p'. merge_progress job pp pt stage err = Inr p'
      \<and> dict_get p' ''pages_processed'' JNull = JInt pp
      \<and> dict_get p' ''pages_total'' JNull = JInt pt
      \<and> dict_get p' ''current_stage'' JNull = JStr stage
      \<and> dict_get p' ''pages_succeeded'' (JInt 0) = JInt (if truthy_str err then ns else ns + 1)
      \<and> dict_get p' ''pages_failed'' (JInt 0) = JInt (if truthy_str err then nf + 1 else nf)
      \<and> dict_get p' ''errors'' (JList []) =
           JList (case err of None \<Rightarrow> es | Some e \<Rightarrow> if e = [] then es else last_n 10 (es @ [JStr e]))"
proof (cases "j_progress job = []")
  case True
  with succ fail errs have z: "ns = 0" "nf = 0" "es = []"
    by (simp_all add: dict_get_def)
  show ?thesis
    by (cases err) (simp_all add: merge_progress_def True z default_progress_def dict_get_set
        truthy_str_def dict_get_def dict_set_def)
next
  case False
  show ?thesis
    using succ fail errs
    by (cases err) (simp_all add: merge_progress_def False dict_get_set truthy_str_def)
qed

lemma ex_job_present: "get_by_id j_id (ingest_jobs ex_store) ''job-1'' = Inr (Some ex_job)"
  by (simp add: get_by_id_def ex_store_def ex_job_def)

lemma set_job_column_overwrites:
  assumes "v \<noteq> JNull"
  shows "(j_issue_id (set_job_column (k, v) j) = j_issue_id j
          \<or> (\<exists>u. (k, v) = (''issue_id'', JStr u) \<and> j_issue_id (set_job_column (k, v) j) = Some u))
       \<and> (j_status (set_job_column (k, v) j) = j_status j
          \<or> (\<exists>t. (k, v) = (''status'', JStr t) \<and> j_status (set_job_column (k, v) j) = t))
       \<and> (j_progress (set_job_column (k, v) j) = j_progress j
          \<or> (\<exists>d. (k, v) = (''progress'', JObj d) \<and> j_progress (set_job_column (k, v) j) = d))
       \<and> (j_error_message (set_job_column (k, v) j) = j_error_message j
          \<or> (\<exists>t. (k, v) = (''error_message'', JStr t)
                \<and> j_error_message (set_job_column (k, v) j) = Some t))"
  using assms by (cases v) auto

lemma job_write_overwrites:
  assumes "\<forall>kv\<in>set d. snd kv \<noteq> JNull"
  shows "(j_issue_id (job_write d j) = j_issue_id j
          \<or> (\<exists>u. (''issue_id'', JStr u) \<in> set d \<and> j_issue_id (job_write d j) = Some u))
       \<and> (j_status (job_write d j) = j_status j
          \<or> (\<exists>t. (''status'', JStr t) \<in> set d \<and> j_status (job_write d j) = t))
       \<and> (j_progress (job_write d j) = j_progress j
          \<or> (\<exists>p. (''progress'', JObj p) \<in> set d \<and> j_progress (job_write d j) = p))
       \<and> (j_error_message (job_write d j) = j_error_message j
          \<or> (\<exists>t. (''error_message'', JStr t) \<in> set d \<and> j_error_message (job_write d j) = Some t))"
  using assms
proof (induction d arbitrary: j)
  case Nil
  then show ?case by simp
next
  case (Cons kv d)
  obtain k v where kv: "kv = (k, v)" by (cases kv)
  from Cons.prems have v: "v \<noteq> JNull" and rest: "\<forall>kv\<in>set d. snd kv \<noteq> JNull"
    by (simp_all add: kv)
  note step = set_job_column_overwrites[OF v, of k j]
  note ih = Cons.IH[OF rest, of "set_job_column (k, v) j"]
  have w: "job_write (kv # d) j = job_write d (set_job_column (k, v) j)"
    by (simp add: kv)
  have 1: "j_issue_id (job_write (kv # d) j) = j_issue_id j
          \<or> (\<exists>u. (''issue_id'', JStr u) \<in> set (kv # d) \<and> j_issue_id (job_write (kv # d) j) = Some u)"
    unfolding w using step[THEN conjunct1] ih[THEN conjunct1]
    by (auto simp: kv simp del: set_job_column.simps)
  have 2: "j_status (job_write (kv # d) j) = j_status j
          \<or> (\<exists>t. (''status'', JStr t) \<in> set (kv # d) \<and> j_status (job_write (kv # d) j) = t)"
    unfolding w using step[THEN conjunct2, THEN conjunct1] ih[THEN conjunct2, THEN conjunct1]
    by (auto simp: kv simp del: set_job_column.simps)
  have 3: "j_progress (job_write (kv # d) j) = j_progress j
          \<or> (\<exists>p. (''progress'', JObj p) \<in> set (kv # d) \<and> j_progress (job_write (kv # d) j) = p)"
    unfolding w using step[THEN conjunct2, THEN conjunct2, THEN conjunct1] ih[THEN conjunct2, THEN conjunct2, THEN conjunct1]
    by (auto simp: kv simp del: set_job_column.simps)
  have 4: "j_error_message (job_write (kv # d) j) = j_error_message j
          \<or> (\<exists>t. (''error_message'', JStr t) \<in> set (kv # d)
                \<and> j_error_message (job_write (kv # d) j) = Some t)"
    unfolding w using step[THEN conjunct2, THEN conjunct2, THEN conjunct2] ih[THEN conjunct2, THEN conjunct2, THEN conjunct2]
    by (auto simp: kv simp del: set_job_column.simps)
  from 1 2 3 4 show ?case by (intro conjI)
qed

lemma filter_no_null: "\<forall>kv\<in>set (filter (\<lambda>(k, v). v \<noteq> JNull) data). snd kv \<noteq> JNull"
  by auto

lemma update_store_cases:
  "snd (update jobs_update_eq_id ''ingest_jobs'' s jid data) = s
   \<or> snd (update jobs_update_eq_id ''ingest_jobs'' s jid data) =
       s\<lparr>ingest_jobs := map (\<lambda>j. if j_id j = jid
                                   then job_write (filter (\<lambda>(k, v). v \<noteq> JNull) data) j else j)
                             (ingest_jobs s)\<rparr>"
  by (simp add: update_def jobs_update_eq_id_def Let_def split: list.splits)

lemma update_row_overwrites:
  assumes "k < length (ingest_jobs s)"
  shows "(j_issue_id (ingest_jobs (snd (update jobs_update_eq_id ''ingest_jobs'' s jid data)) ! k)
            = j_issue_id (ingest_jobs s ! k)
          \<or> (\<exists>u. (''issue_id'', JStr u) \<in> set data
                \<and> j_issue_id (ingest_jobs (snd (update jobs_update_eq_id ''ingest_jobs'' s jid data)) ! k)
                    = Some u))
       \<and> (j_status (ingest_jobs (snd (update jobs_update_eq_id ''ingest_jobs'' s jid data)) ! k)
            = j_status (ingest_jobs s ! k)
          \<or> (\<exists>t. (''status'', JStr t) \<in> set data
                \<and> j_status (ingest_jobs (snd (update jobs_update_eq_id ''ingest_jobs'' s jid data)) ! k)
                    = t))
       \<and> (j_progress (ingest_jobs (snd (update jobs_update_eq_id ''ingest_jobs'' s jid data)) ! k)
            = j_progress (ingest_jobs s ! k)
          \<or> (\<exists>p. (''progress'', JObj p) \<in> set data
                \<and> j_progress (ingest_jobs (snd (update jobs_update_eq_id ''ingest_jobs'' s jid data)) ! k)
                    = p))
       \<and> (j_error_message (ingest_jobs (snd (update jobs_update_eq_id ''ingest_jobs'' s jid data)) ! k)
            = j_error_message (ingest_jobs s ! k)
          \<or> (\<exists>t. (''error_message'', JStr t) \<in> set data
                \<and> j_error_message
                     (ingest_jobs (snd (update jobs_update_eq_id ''ingest_jobs'' s jid data)) ! k)
                    = Some t))"
proof -
  let ?d = "filter (\<lambda>(k, v). v \<noteq> JNull) data"
  from update_store_cases[of s jid data] show ?thesis
  proof
    assume "snd (update jobs_update_eq_id ''ingest_jobs'' s jid data) = s"
    then show ?thesis by simp
  next
    assume u: "snd (update jobs_update_eq_id ''ingest_jobs'' s jid data) =
       s\<lparr>ingest_jobs := map (\<lambda>j. if j_id j = jid then job_write ?d j else j) (ingest_jobs s)\<rparr>"
    show ?thesis
    proof (cases "j_id (ingest_jobs s ! k) = jid")
      case True
      have sub: "\<And>x. x \<in> set ?d \<Longrightarrow> x \<in> set data" by simp
      note jw = job_write_overwrites[OF filter_no_null[of data], of "ingest_jobs s ! k"]
      have row: "ingest_jobs (snd (update jobs_update_eq_id ''ingest_jobs'' s jid data)) ! k
                   = job_write ?d (ingest_jobs s ! k)"
        using assms True by (simp add: u)
      show ?thesis
        unfolding row
        using jw[THEN conjunct1] jw[THEN conjunct2, THEN conjunct1]
          jw[THEN conjunct2, THEN conjunct2, THEN conjunct1]
          jw[THEN conjunct2, THEN conjunct2, THEN conjunct2] sub
        by (intro conjI) blast+
    next
      case False
      then show ?thesis using assms by (simp add: u)
    qed
  qed
qed

section \<open>Facts about create-or-get\<close>

lemma issue_create_or_get_existing:
  assumes "filter (\<lambda>r. i_newspaper_id r = nid \<and> i_issue_date r = d) (issues s) = [x]"
  shows "issue_create_or_get s nid d np st ext md = (Inr x, s)"
  using assms
  by (simp add: issue_create_or_get_def get_by_newspaper_and_date_def lookup_one)

lemma issue_create_or_get_no_row:
  assumes "filter (\<lambda>r. i_newspaper_id r = nid \<and> i_issue_date r = d) (issues s) = []"
  shows "issue_create_or_get s nid d np st ext md = (Inl AttributeError, s)"
  using assms
  by (simp add: issue_create_or_get_def get_by_newspaper_and_date_def lookup_one)

lemma page_create_or_get_existing:
  assumes "filter (\<lambda>r. p_issue_id r = iid \<and> p_page_number r = n) (pages s) = [x]"
  shows "page_create_or_get s iid n path st = (Inr x, s)"
  using assms
  by (simp add: page_create_or_get_def get_by_issue_and_number_def lookup_one)

lemma page_create_or_get_no_row:
  assumes "filter (\<lambda>r. p_issue_id r = iid \<and> p_page_number r = n) (pages s) = []"
  shows "page_create_or_get s iid n path st = (Inl AttributeError, s)"
  using assms
  by (simp add: page_create_or_get_def get_by_issue_and_number_def lookup_one)

text \<open>
  The upsert itself cannot send what \<^verbatim>\<open>model_dump\<close> gives it: the dict holds a \<^verbatim>\<open>UUID\<close>.
\<close>

lemma execute_upsert_payload:
  "execute_upsert ''issues'' (issue_model_dump d) s response = (Inl TypeError, s)"
  "execute_upsert ''pages'' (page_model_dump d') s response' = (Inl TypeError, s)"
  by (simp_all add: execute_upsert_def issue_model_dump_def page_model_dump_def)

section \<open>Facts about the issue detail\<close>

lemma get_by_id_Inl:
  "get_by_id idc rows i = Inl e \<Longrightarrow> e = AttributeError \<or> e = APIError"
  by (auto simp: get_by_id_def lookup_one split: list.splits)

lemma get_issue_detail_found:
  assumes "filter (\<lambda>r. i_id r = iid) (issues s) = [issue]"
    and "filter (\<lambda>r. n_id r = i_newspaper_id issue) (newspapers s) = [newspaper]"
  shows "\<exists>r. get_issue_detail s iid = Inr r
          \<and> d_id r = i_id issue \<and> d_newspaper_id r = i_newspaper_id issue
          \<and> d_issue_date r = i_issue_date issue \<and> d_num_pages r = i_num_pages issue
          \<and> d_source_type r = i_source_type issue
          \<and> d_source_external_id r = i_source_external_id issue
          \<and> d_metadata r = i_metadata issue \<and> d_created_at r = i_created_at issue
          \<and> d_newspaper r = newspaper_response_of newspaper
          \<and> d_pages r = map page_response_of
                           (sort_key p_page_number (filter (\<lambda>p. p_issue_id p = iid) (pages s)))"
  using assms
  by (simp add: get_issue_detail_def get_by_id_def lookup_one list_by_issue_def)

lemma get_issue_detail_raises:
  "get_issue_detail s iid = Inl e \<Longrightarrow> e = AttributeError \<or> e = APIError"
  by (auto simp: get_issue_detail_def get_by_id_not_None
      split: sum.splits option.splits dest: get_by_id_Inl)

section \<open>Facts about listing, the page loop and schedules\<close>


lemma save_pages_Inl:
  assumes "k < length imgs"
    and "\<forall>i<k. \<exists>bs. save (imgs ! i) fmt = Inr bs"
    and "save (imgs ! k) fmt = Inl e"
  shows "save_pages save fmt imgs acc = Inl e"
  using assms
proof (induction imgs arbitrary: k acc)
  case Nil
  then show ?case by simp
next
  case (Cons img imgs)
  show ?case
  proof (cases k)
    case 0
    with Cons.prems show ?thesis by simp
  next
    case (Suc k')
    from Cons.prems(2) Suc obtain bs where bs: "save img fmt = Inr bs"
      by (metis nth_Cons_0 zero_less_Suc)
    have "\<forall>i<k'. \<exists>bs. save (imgs ! i) fmt = Inr bs"
      using Cons.prems(2) Suc by (metis Suc_less_eq nth_Cons_Suc)
    moreover have "k' < length imgs" "save (imgs ! k') fmt = Inl e"
      using Cons.prems Suc by simp_all
    ultimately have "save_pages save fmt imgs (acc @ [bs]) = Inl e"
      using Cons.IH by blast
    then show ?thesis by (simp add: bs)
  qed
qed

lemma save_pages_Inr:
  assumes "save_pages save fmt imgs acc = Inr out"
  shows "length out = length acc + length imgs \<and> take (length acc) out = acc
       \<and> (\<forall>i<length imgs. save (imgs ! i) fmt = Inr (out ! (length acc + i)))"
  using assms
proof (induction imgs arbitrary: acc)
  case Nil
  then show ?case by simp
next
  case (Cons img imgs)
  from Cons.prems obtain bs where bs: "save img fmt = Inr bs"
    and rest: "save_pages save fmt imgs (acc @ [bs]) = Inr out"
    by (auto split: sum.splits)
  from Cons.IH[OF rest] have len: "length out = length acc + 1 + length imgs"
    and pre: "take (length acc + 1) out = acc @ [bs]"
    and nth: "\<forall>i<length imgs. save (imgs ! i) fmt = Inr (out ! (length acc + 1 + i))"
    by simp_all
  from pre have pre': "take (length acc) out = acc"
    by (metis append_eq_conv_conj length_append_singleton take_all_iff take_take min.absorb1
        le_add1 order_refl take_append)
  from pre len have at: "out ! length acc = bs"
    by (metis less_add_one nth_append_length nth_take)
  have "\<forall>i<length (img # imgs). save ((img # imgs) ! i) fmt = Inr (out ! (length acc + i))"
  proof (intro allI impI)
    fix i assume "i < length (img # imgs)"
    then show "save ((img # imgs) ! i) fmt = Inr (out ! (length acc + i))"
      using nth bs at by (cases i) simp_all
  qed
  with len pre' show ?case by simp
qed

lemma save_pages_total:
  assumes "\<forall>i<length imgs. \<exists>bs. save (imgs ! i) fmt = Inr bs"
  shows "\<exists>out. save_pages save fmt imgs acc = Inr out"
  using assms
proof (induction imgs arbitrary: acc)
  case Nil
  then show ?case by simp
next
  case (Cons img imgs)
  from Cons.prems obtain bs where bs: "save img fmt = Inr bs"
    by (metis length_Cons nth_Cons_0 zero_less_Suc)
  have "\<forall>i<length imgs. \<exists>bs. save (imgs ! i) fmt = Inr bs"
    using Cons.prems by (metis Suc_less_eq length_Cons nth_Cons_Suc)
  from Cons.IH[OF this] show ?case by (simp add: bs)
qed

lemma run_one_worker:
  "run_schedule [0, 0] (s, [Start jid pp pt stage err]) =
     (snd (increment_progress s jid pp pt stage err),
      [Done (fst (increment_progress s jid pp pt stage err))])"
  by (simp add: increment_progress_def split: sum.splits option.splits prod.splits)

lemma counted_present:
  "get_by_id j_id (ingest_jobs s) jid = Inr (Some job) \<Longrightarrow>
   counted s jid = [dict_get (j_progress job) ''pages_succeeded'' (JInt 0),
                    dict_get (j_progress job) ''pages_failed'' (JInt 0)]"
  by (simp add: counted_def get_by_id_Some)

section \<open>Progress increments\<close>

text \<open>
  Claim C1, as the code has it. For a job present in the store whose progress counters are
  integers and whose \<open>errors\<close> is a list (a missing key counts as \<open>0\<close> or \<open>[]\<close>, as
  \<^verbatim>\<open>progress.get\<close> does), \<^verbatim>\<open>increment_progress\<close> succeeds, writes the merged progress to
  that job only and returns it; \<open>pages_processed\<close>, \<open>pages_total\<close> and \<open>current_stage\<close> are the
  supplied values. With no error, or with the empty string, \<open>pages_succeeded\<close> grows by
  one and \<open>pages_failed\<close> and \<open>errors\<close> stay; with a non-empty error \<open>pages_failed\<close> grows by
  one, \<open>pages_succeeded\<close> stays, and \<open>errors\<close> becomes the last ten entries of the old list
  followed by the error.
\<close>

theorem increment_progress_counts:
  assumes present: "get_by_id j_id (ingest_jobs s) jid = Inr (Some job)"
    and succ: "dict_get (j_progress job) ''pages_succeeded'' (JInt 0) = JInt ns"
    and fail: "dict_get (j_progress job) ''pages_failed'' (JInt 0) = JInt nf"
    and errs: "dict_get (j_progress job) ''errors'' (JList []) = JList es"
  shows "\<exists>p'. increment_progress s jid pp pt stage err =
             (Inr (job\<lparr>j_progress := p'\<rparr>),
              s\<lparr>ingest_jobs := map (\<lambda>j. if j_id j = jid then j\<lparr>j_progress := p'\<rparr> else j)
                                  (ingest_jobs s)\<rparr>)
      \<and> dict_get p' ''pages_processed'' JNull = JInt pp
      \<and> dict_get p' ''pages_total'' JNull = JInt pt
      \<and> dict_get p' ''current_stage'' JNull = JStr stage
      \<and> (err = None \<or> err = Some [] \<longrightarrow>
            dict_get p' ''pages_succeeded'' (JInt 0) = JInt (ns + 1)
          \<and> dict_get p' ''pages_failed'' (JInt 0) = JInt nf
          \<and> dict_get p' ''errors'' (JList []) = JList es)
      \<and> (\<forall>e. err = Some e \<and> e \<noteq> [] \<longrightarrow>
            dict_get p' ''pages_failed'' (JInt 0) = JInt (nf + 1)
          \<and> dict_get p' ''pages_succeeded'' (JInt 0) = JInt ns
          \<and> dict_get p' ''errors'' (JList []) = JList (last_n 10 (es @ [JStr e]))
          \<and> last_n 10 (es @ [JStr e]) = drop (length es - 9) es @ [JStr e]
          \<and> length (last_n 10 (es @ [JStr e])) \<le> 10)"
proof -
  from merge_progress_ok[OF succ fail errs, of pp pt stage err]
  obtain p' where m: "merge_progress job pp pt stage err = Inr p'"
    and a: "dict_get p' ''pages_processed'' JNull = JInt pp"
      "dict_get p' ''pages_total'' JNull = JInt pt"
      "dict_get p' ''current_stage'' JNull = JStr stage"
    and b: "dict_get p' ''pages_succeeded'' (JInt 0) = JInt (if truthy_str err then ns else ns + 1)"
      "dict_get p' ''pages_failed'' (JInt 0) = JInt (if truthy_str err then nf + 1 else nf)"
      "dict_get p' ''errors'' (JList []) =
           JList (case err of None \<Rightarrow> es | Some e \<Rightarrow> if e = [] then es else last_n 10 (es @ [JStr e]))"
    by blast
  have ne: "job_update_data None None (Some p') None \<noteq> []"
    by (simp add: job_update_data_empty)
  have w: "written None None (Some p') None = (\<lambda>j. j\<lparr>j_progress := p'\<rparr>)"
    by (rule ext) (simp add: written_def)
  have run: "increment_progress s jid pp pt stage err =
             (Inr (job\<lparr>j_progress := p'\<rparr>),
              s\<lparr>ingest_jobs := map (\<lambda>j. if j_id j = jid then j\<lparr>j_progress := p'\<rparr> else j)
                                  (ingest_jobs s)\<rparr>)"
    using update_job_present(1)[OF present ne]
    by (simp add: increment_progress_def present m w)
  have ok: "err = None \<or> err = Some [] \<longrightarrow>
            dict_get p' ''pages_succeeded'' (JInt 0) = JInt (ns + 1)
          \<and> dict_get p' ''pages_failed'' (JInt 0) = JInt nf
          \<and> dict_get p' ''errors'' (JList []) = JList es"
    using b by (auto simp: truthy_str_def)
  have ko: "\<forall>e. err = Some e \<and> e \<noteq> [] \<longrightarrow>
            dict_get p' ''pages_failed'' (JInt 0) = JInt (nf + 1)
          \<and> dict_get p' ''pages_succeeded'' (JInt 0) = JInt ns
          \<and> dict_get p' ''errors'' (JList []) = JList (last_n 10 (es @ [JStr e]))
          \<and> last_n 10 (es @ [JStr e]) = drop (length es - 9) es @ [JStr e]
          \<and> length (last_n 10 (es @ [JStr e])) \<le> 10"
    using b by (auto simp: truthy_str_def last_n_def)
  from run a ok ko show ?thesis by blast
qed

theorem increment_progress_counts_witness:
  "\<exists>p'. fst (increment_progress ex_store ''job-1'' 5 10 ''ocr'' (Some ''timeout''))
           = Inr (ex_job\<lparr>j_progress := p'\<rparr>)
       \<and> dict_get p' ''pages_processed'' JNull = JInt 5
       \<and> dict_get p' ''pages_total'' JNull = JInt 10
       \<and> dict_get p' ''current_stage'' JNull = JStr ''ocr''
       \<and> dict_get p' ''pages_failed'' (JInt 0) = JInt 1
       \<and> dict_get p' ''pages_succeeded'' (JInt 0) = JInt 4
       \<and> dict_get p' ''errors'' (JList []) = JList [JStr ''timeout'']"
proof -
  have h2: "dict_get (j_progress ex_job) ''pages_succeeded'' (JInt 0) = JInt 4"
    and h3: "dict_get (j_progress ex_job) ''pages_failed'' (JInt 0) = JInt 0"
    and h4: "dict_get (j_progress ex_job) ''errors'' (JList []) = JList []"
    by (simp_all add: ex_job_def dict_get_def)
  from increment_progress_counts[OF ex_job_present h2 h3 h4, of 5 10 "''ocr''" "Some ''timeout''"]
  show ?thesis by (auto simp: last_n_def)
qed

text \<open>
  Claim C1 as stated fails for an error argument that is the empty string: the call counts
  a success. The job had 4 succeeded and 0 failed pages; afterwards it has 5 and 0.
\<close>

theorem increment_progress_empty_error:
  "fst (increment_progress ex_store ''job-1'' 5 10 ''ocr'' (Some '''')) =
     Inr (ex_job\<lparr>j_progress :=
        [(''pages_total'', JInt 10), (''pages_processed'', JInt 5),
         (''pages_succeeded'', JInt 5), (''pages_failed'', JInt 0),
         (''current_stage'', JStr ''ocr''), (''errors'', JList [])]\<rparr>)
   \<and> dict_get (j_progress ex_job) ''pages_failed'' (JInt 0) = JInt 0
   \<and> dict_get (j_progress ex_job) ''pages_succeeded'' (JInt 0) = JInt 4"
proof -
  let ?p = "[(''pages_total'', JInt 10), (''pages_processed'', JInt 5),
         (''pages_succeeded'', JInt 5), (''pages_failed'', JInt 0),
         (''current_stage'', JStr ''ocr''), (''errors'', JList [])]"
  have m: "merge_progress ex_job 5 10 ''ocr'' (Some '''') = Inr ?p"
    by (simp add: merge_progress_def truthy_str_def ex_job_def dict_set_def dict_get_def)
  have ne: "job_update_data None None (Some ?p) None \<noteq> []"
    by (simp add: job_update_data_empty)
  have "increment_progress ex_store ''job-1'' 5 10 ''ocr'' (Some '''')
          = update_job ex_store ''job-1'' None None (Some ?p) None"
    by (simp add: increment_progress_def ex_job_present m)
  then have "fst (increment_progress ex_store ''job-1'' 5 10 ''ocr'' (Some ''''))
          = Inr (written None None (Some ?p) None ex_job)"
    using update_job_present(1)[OF ex_job_present ne] by simp
  moreover have "dict_get (j_progress ex_job) ''pages_failed'' (JInt 0) = JInt 0"
    "dict_get (j_progress ex_job) ''pages_succeeded'' (JInt 0) = JInt 4"
    by (simp_all add: ex_job_def dict_get_def)
  ultimately show ?thesis by (simp add: written_def)
qed

section \<open>Partial updates of a job\<close>

text \<open>
  Claim C8. No guard protects a terminal status: for every job present in the store whose
  status is \<open>completed\<close> or \<open>failed\<close>, \<^verbatim>\<open>update_job\<close> with any status succeeds, returns the
  job with that status, and the store then holds it.
\<close>

theorem update_job_leaves_terminal:
  assumes "get_by_id j_id (ingest_jobs s) jid = Inr (Some job)"
    and "j_status job = ''completed'' \<or> j_status job = ''failed''"
  shows "\<exists>s'. update_job s jid None (Some st) None None = (Inr (job\<lparr>j_status := st\<rparr>), s')
           \<and> get_by_id j_id (ingest_jobs s') jid = Inr (Some (job\<lparr>j_status := st\<rparr>))"
proof -
  have ne: "job_update_data None (Some st) None None \<noteq> []"
    by (simp add: job_update_data_empty)
  have w: "written None (Some st) None None job = job\<lparr>j_status := st\<rparr>"
    by (simp add: written_def)
  from update_job_present[OF assms(1) ne] show ?thesis
    by (simp add: w)
qed

theorem update_job_leaves_terminal_witness:
  "j_status ex_job = ''completed''
   \<and> fst (update_job ex_store ''job-1'' None (Some ''processing'') None None)
       = Inr (ex_job\<lparr>j_status := ''processing''\<rparr>)
   \<and> map j_status (ingest_jobs (snd (update_job ex_store ''job-1'' None (Some ''processing'') None None)))
       = [''processing'']"
proof -
  have st: "j_status ex_job = ''completed''" by (simp add: ex_job_def)
  from update_job_leaves_terminal[OF ex_job_present, of "''processing''"] st
  obtain s' where u: "update_job ex_store ''job-1'' None (Some ''processing'') None None =
      (Inr (ex_job\<lparr>j_status := ''processing''\<rparr>), s')"
    and g: "get_by_id j_id (ingest_jobs s') ''job-1'' = Inr (Some (ex_job\<lparr>j_status := ''processing''\<rparr>))"
    by blast
  have "map j_status (ingest_jobs (snd (update_job ex_store ''job-1'' None (Some ''processing'') None None)))
       = [''processing'']"
    by (simp add: update_job_store ex_store_def ex_job_def written_def)
  with st u show ?thesis by simp
qed

text \<open>
  Claim C5. \<^verbatim>\<open>update_job\<close> touches no other table and no other job, keeps the number of
  rows, and in the job it names writes the supplied fields only: a field that is omitted
  keeps its stored value, a field that is supplied takes the supplied value, and the
  identifier, the idempotency key and the creation time stay. A job it returns is the
  stored one.
\<close>

theorem update_job_frame:
  assumes "update_job s jid iss st pr em = (res, s')"
  shows "newspapers s' = newspapers s \<and> issues s' = issues s \<and> pages s' = pages s
       \<and> length (ingest_jobs s') = length (ingest_jobs s)
       \<and> (\<forall>k<length (ingest_jobs s).
             (j_id (ingest_jobs s ! k) \<noteq> jid \<longrightarrow> ingest_jobs s' ! k = ingest_jobs s ! k)
           \<and> (j_id (ingest_jobs s ! k) = jid \<longrightarrow>
                 j_issue_id (ingest_jobs s' ! k) =
                   (case iss of None \<Rightarrow> j_issue_id (ingest_jobs s ! k) | Some u \<Rightarrow> Some u)
               \<and> j_status (ingest_jobs s' ! k) =
                   (case st of None \<Rightarrow> j_status (ingest_jobs s ! k) | Some t \<Rightarrow> t)
               \<and> j_progress (ingest_jobs s' ! k) =
                   (case pr of None \<Rightarrow> j_progress (ingest_jobs s ! k) | Some d \<Rightarrow> d)
               \<and> j_error_message (ingest_jobs s' ! k) =
                   (case em of None \<Rightarrow> j_error_message (ingest_jobs s ! k) | Some t \<Rightarrow> Some t)
               \<and> j_id (ingest_jobs s' ! k) = jid
               \<and> j_idempotency_key (ingest_jobs s' ! k) = j_idempotency_key (ingest_jobs s ! k)
               \<and> j_created_at (ingest_jobs s' ! k) = j_created_at (ingest_jobs s ! k)))
       \<and> (\<forall>r. res = Inr r \<longrightarrow> r \<in> set (ingest_jobs s') \<and> j_id r = jid)"
proof -
  from assms have s': "s' = snd (update_job s jid iss st pr em)"
    and res: "res = fst (update_job s jid iss st pr em)" by simp_all
  have store: "s' = s\<lparr>ingest_jobs := map (\<lambda>j. if j_id j = jid then written iss st pr em j else j) (ingest_jobs s)\<rparr>"
    by (simp add: s' update_job_store)
  have tables: "newspapers s' = newspapers s" "issues s' = issues s" "pages s' = pages s"
    "length (ingest_jobs s') = length (ingest_jobs s)"
    by (simp_all add: store)
  have rows: "\<forall>k<length (ingest_jobs s).
             (j_id (ingest_jobs s ! k) \<noteq> jid \<longrightarrow> ingest_jobs s' ! k = ingest_jobs s ! k)
           \<and> (j_id (ingest_jobs s ! k) = jid \<longrightarrow>
                 j_issue_id (ingest_jobs s' ! k) =
                   (case iss of None \<Rightarrow> j_issue_id (ingest_jobs s ! k) | Some u \<Rightarrow> Some u)
               \<and> j_status (ingest_jobs s' ! k) =
                   (case st of None \<Rightarrow> j_status (ingest_jobs s ! k) | Some t \<Rightarrow> t)
               \<and> j_progress (ingest_jobs s' ! k) =
                   (case pr of None \<Rightarrow> j_progress (ingest_jobs s ! k) | Some d \<Rightarrow> d)
               \<and> j_error_message (ingest_jobs s' ! k) =
                   (case em of None \<Rightarrow> j_error_message (ingest_jobs s ! k) | Some t \<Rightarrow> Some t)
               \<and> j_id (ingest_jobs s' ! k) = jid
               \<and> j_idempotency_key (ingest_jobs s' ! k) = j_idempotency_key (ingest_jobs s ! k)
               \<and> j_created_at (ingest_jobs s' ! k) = j_created_at (ingest_jobs s ! k))"
    by (simp add: store written_def)
  have ret: "\<forall>r. res = Inr r \<longrightarrow> r \<in> set (ingest_jobs s') \<and> j_id r = jid"
  proof (intro allI impI)
    fix r assume r: "res = Inr r"
    then obtain j js where f: "filter (\<lambda>j. j_id j = jid) (ingest_jobs s) = j # js"
      and rj: "r = written iss st pr em j"
      by (auto simp: res update_job_result split: if_splits list.splits)
    from f have "j \<in> set (filter (\<lambda>j. j_id j = jid) (ingest_jobs s))" by simp
    then have "j \<in> set (ingest_jobs s)" "j_id j = jid" by simp_all
    then show "r \<in> set (ingest_jobs s') \<and> j_id r = jid"
      by (auto simp: store rj j_id_written image_iff intro!: bexI[of _ j])
  qed
  from tables rows ret show ?thesis by (intro conjI)
qed

theorem update_job_frame_witness:
  "fst (update_job ex_store ''job-1'' None (Some ''processing'') None None)
     = Inr (ex_job\<lparr>j_status := ''processing''\<rparr>)
   \<and> ingest_jobs (snd (update_job ex_store ''job-1'' None (Some ''processing'') None None))
     = [ex_job\<lparr>j_status := ''processing''\<rparr>]
   \<and> j_issue_id (ex_job\<lparr>j_status := ''processing''\<rparr>) = j_issue_id ex_job
   \<and> j_progress (ex_job\<lparr>j_status := ''processing''\<rparr>) = j_progress ex_job
   \<and> j_error_message (ex_job\<lparr>j_status := ''processing''\<rparr>) = j_error_message ex_job"
proof -
  let ?c = "update_job ex_store ''job-1'' None (Some ''processing'') None None"
  have c: "?c = (fst ?c, snd ?c)" by simp
  have j: "ingest_jobs ex_store = [ex_job]" "j_id ex_job = ''job-1''"
    by (simp_all add: ex_store_def ex_job_def)
  from update_job_frame[OF c] j
  have len: "length (ingest_jobs (snd ?c)) = 1"
    and row: "j_issue_id (ingest_jobs (snd ?c) ! 0) = j_issue_id ex_job"
      "j_status (ingest_jobs (snd ?c) ! 0) = ''processing''"
      "j_progress (ingest_jobs (snd ?c) ! 0) = j_progress ex_job"
      "j_error_message (ingest_jobs (snd ?c) ! 0) = j_error_message ex_job"
    by simp_all
  have "fst ?c = Inr (ex_job\<lparr>j_status := ''processing''\<rparr>)"
    by (simp add: update_job_result job_update_data_empty j written_def)
  moreover have "ingest_jobs (snd ?c) = [ex_job\<lparr>j_status := ''processing''\<rparr>]"
    by (simp add: update_job_store j written_def)
  ultimately show ?thesis using len row by simp
qed

text \<open>
  Claim C9. The generic \<^verbatim>\<open>update\<close> hands the store the dict without its \<^verbatim>\<open>None\<close> entries
  (shown with a store request that answers with the dict it received), and the dict
  \<^verbatim>\<open>update_job\<close> builds has an entry for each supplied argument and none that is
  \<^verbatim>\<open>None\<close>. So in every row of \<^verbatim>\<open>ingest_jobs\<close>, after \<^verbatim>\<open>update\<close> with any dict, each of
  \<open>issue_id\<close>, \<open>status\<close>, \<open>progress\<close> and \<open>error_message\<close> is what it was or a non-null value
  of the dict, and an \<open>issue_id\<close> or \<open>error_message\<close> that was set is still set.
\<close>

theorem update_never_clears:
  assumes "k < length (ingest_jobs s)"
    and "old = ingest_jobs s ! k"
    and "new = ingest_jobs (snd (update jobs_update_eq_id ''ingest_jobs'' s jid data)) ! k"
  shows "update (\<lambda>s d i. Inr ([d], s)) table_name s jid data
           = (Inr (filter (\<lambda>(c, v). v \<noteq> JNull) data), s)
       \<and> (\<forall>kv\<in>set (job_update_data iss st pr em). snd kv \<noteq> JNull)
       \<and> map fst (job_update_data iss st pr em) =
           (if iss = None then [] else [''issue_id'']) @ (if st = None then [] else [''status''])
           @ (if pr = None then [] else [''progress''])
           @ (if em = None then [] else [''error_message''])
       \<and> (j_issue_id new = j_issue_id old
          \<or> (\<exists>u. (''issue_id'', JStr u) \<in> set data \<and> j_issue_id new = Some u))
       \<and> (j_status new = j_status old
          \<or> (\<exists>t. (''status'', JStr t) \<in> set data \<and> j_status new = t))
       \<and> (j_progress new = j_progress old
          \<or> (\<exists>p. (''progress'', JObj p) \<in> set data \<and> j_progress new = p))
       \<and> (j_error_message new = j_error_message old
          \<or> (\<exists>t. (''error_message'', JStr t) \<in> set data \<and> j_error_message new = Some t))
       \<and> (j_issue_id old \<noteq> None \<longrightarrow> j_issue_id new \<noteq> None)
       \<and> (j_error_message old \<noteq> None \<longrightarrow> j_error_message new \<noteq> None)"
proof -
  have probe: "update (\<lambda>s d i. Inr ([d], s)) table_name s jid data
           = (Inr (filter (\<lambda>(c, v). v \<noteq> JNull) data), s)"
    by (simp add: update_def)
  have nonull: "\<forall>kv\<in>set (job_update_data iss st pr em). snd kv \<noteq> JNull"
    using filter_no_null[of "job_update_data iss st pr em"]
    by (simp only: job_update_data_no_null)
  have keys: "map fst (job_update_data iss st pr em) =
           (if iss = None then [] else [''issue_id'']) @ (if st = None then [] else [''status''])
           @ (if pr = None then [] else [''progress''])
           @ (if em = None then [] else [''error_message''])"
    by (cases iss; cases st; cases pr; cases em)
       (simp_all add: job_update_data_def dict_set_def)
  note ow = update_row_overwrites[OF assms(1), of jid data, folded assms(2) assms(3)]
  from ow have a: "j_issue_id new = j_issue_id old
          \<or> (\<exists>u. (''issue_id'', JStr u) \<in> set data \<and> j_issue_id new = Some u)"
    and b: "j_status new = j_status old
          \<or> (\<exists>t. (''status'', JStr t) \<in> set data \<and> j_status new = t)"
    and c: "j_progress new = j_progress old
          \<or> (\<exists>p. (''progress'', JObj p) \<in> set data \<and> j_progress new = p)"
    and d: "j_error_message new = j_error_message old
          \<or> (\<exists>t. (''error_message'', JStr t) \<in> set data \<and> j_error_message new = Some t)"
    by blast+
  from a have e: "j_issue_id old \<noteq> None \<longrightarrow> j_issue_id new \<noteq> None" by auto
  from d have f: "j_error_message old \<noteq> None \<longrightarrow> j_error_message new \<noteq> None" by auto
  from probe nonull keys a b c d e f show ?thesis by (intro conjI)
qed

theorem update_never_clears_witness:
  "update jobs_update_eq_id ''ingest_jobs'' ex_store ''job-1''
      [(''issue_id'', JNull), (''status'', JStr ''failed''), (''error_message'', JNull)]
    = (Inr (ex_job\<lparr>j_status := ''failed''\<rparr>),
       ex_store\<lparr>ingest_jobs := [ex_job\<lparr>j_status := ''failed''\<rparr>]\<rparr>)
   \<and> j_issue_id (ex_job\<lparr>j_status := ''failed''\<rparr>) = Some ''issue-1''
   \<and> j_error_message (ex_job\<lparr>j_status := ''failed''\<rparr>) = Some ''late''"
proof -
  let ?data = "[(''issue_id'', JNull), (''status'', JStr ''failed''), (''error_message'', JNull)]"
  have run: "update jobs_update_eq_id ''ingest_jobs'' ex_store ''job-1'' ?data
    = (Inr (ex_job\<lparr>j_status := ''failed''\<rparr>),
       ex_store\<lparr>ingest_jobs := [ex_job\<lparr>j_status := ''failed''\<rparr>]\<rparr>)"
    by (simp add: update_def jobs_update_eq_id_def ex_store_def ex_job_def Let_def)
  have k: "0 < length (ingest_jobs ex_store)" by (simp add: ex_store_def)
  have old: "ex_job = ingest_jobs ex_store ! 0" by (simp add: ex_store_def)
  have new: "ex_job\<lparr>j_status := ''failed''\<rparr> =
     ingest_jobs (snd (update jobs_update_eq_id ''ingest_jobs'' ex_store ''job-1'' ?data)) ! 0"
    by (simp add: run)
  have set: "j_issue_id ex_job \<noteq> None" "j_error_message ex_job \<noteq> None"
    by (simp_all add: ex_job_def)
  from update_never_clears[OF k old new] set
  have "j_issue_id (ex_job\<lparr>j_status := ''failed''\<rparr>) \<noteq> None"
    "j_error_message (ex_job\<lparr>j_status := ''failed''\<rparr>) \<noteq> None"
    by blast+
  then show ?thesis using run by (simp add: ex_job_def)
qed

section \<open>Create-or-get\<close>

text \<open>
  Claim C2. With one row for the key in the store, \<^verbatim>\<open>create_or_get\<close> returns that row and
  leaves the store as it is, so a second call returns the same \<^verbatim>\<open>id\<close>. With no row for
  the key the code does not get that far: the lookup reads \<^verbatim>\<open>response.data\<close> of the
  \<^verbatim>\<open>None\<close> the client returned, so the call raises \<^verbatim>\<open>AttributeError\<close>, returns no record
  and creates none, for an issue and for a page alike.
\<close>

theorem create_or_get_raises_without_row:
  "issue_create_or_get ex_store ''paper-1'' 700000 8 ''upload'' None None
     = (Inl AttributeError, ex_store)
   \<and> page_create_or_get ex_store ''issue-1'' 3 ''a.png'' ''pending''
     = (Inl AttributeError, ex_store)"
proof -
  have "filter (\<lambda>r. i_newspaper_id r = ''paper-1'' \<and> i_issue_date r = 700000) (issues ex_store) = []"
    by (simp add: ex_store_def)
  then have one: "issue_create_or_get ex_store ''paper-1'' 700000 8 ''upload'' None None
     = (Inl AttributeError, ex_store)"
    by (rule issue_create_or_get_no_row)
  have "filter (\<lambda>r. p_issue_id r = ''issue-1'' \<and> p_page_number r = 3) (pages ex_store) = []"
    by (simp add: ex_store_def)
  then have two: "page_create_or_get ex_store ''issue-1'' 3 ''a.png'' ''pending''
     = (Inl AttributeError, ex_store)"
    by (rule page_create_or_get_no_row)
  from one two show ?thesis ..
qed

section \<open>Browse routes: listing and detail\<close>



text \<open>
  Claim C4. When the issue and its newspaper are there, \<^verbatim>\<open>get_issue_detail\<close> returns the
  issue's fields, the newspaper and the pages in page order. When no issue has the id, the
  lookup raises \<^verbatim>\<open>AttributeError\<close> before the handler can answer 404, and so does the
  lookup of a newspaper that is missing; the handler never raises an \<^verbatim>\<open>HTTPException\<close>
  with status 404.
\<close>

theorem get_issue_detail_missing_issue:
  "get_issue_detail (ex_browse_store 1) ''x'' = Inl AttributeError
   \<and> get_issue_detail (ex_browse_store 1) ''i'' = Inl AttributeError
   \<and> get_issue_detail s iid \<noteq> Inl (HTTPException 404 detail)"
proof -
  have i: "issues (ex_browse_store 1) = [ex_issue 0]"
    by (simp add: ex_browse_store_def)
  have a: "filter (\<lambda>r. i_id r = ''x'') (issues (ex_browse_store 1)) = []"
    by (simp only: i) (simp add: ex_issue_def)
  have b: "filter (\<lambda>r. i_id r = ''i'') (issues (ex_browse_store 1)) = [ex_issue 0]"
    by (simp only: i) (simp add: ex_issue_def)
  have c: "filter (\<lambda>r. n_id r = i_newspaper_id (ex_issue 0)) (newspapers (ex_browse_store 1)) = []"
    by (simp add: ex_browse_store_def)
  have g1: "get_by_id i_id (issues (ex_browse_store 1)) ''x'' = Inl AttributeError"
    by (rule get_by_id_missing[OF a])
  have one: "get_issue_detail (ex_browse_store 1) ''x'' = Inl AttributeError"
    unfolding get_issue_detail_def g1 by (simp only: sum.case)
  have g2: "get_by_id i_id (issues (ex_browse_store 1)) ''i'' = Inr (Some (ex_issue 0))"
    by (simp only: get_by_id_Some b)
  have g3: "get_by_id n_id (newspapers (ex_browse_store 1)) (i_newspaper_id (ex_issue 0))
              = Inl AttributeError"
    by (rule get_by_id_missing[OF c])
  have two: "get_issue_detail (ex_browse_store 1) ''i'' = Inl AttributeError"
    unfolding get_issue_detail_def g2 by (simp only: sum.case option.case g3)
  have three: "get_issue_detail s iid \<noteq> Inl (HTTPException 404 detail)"
    using get_issue_detail_raises[of s iid "HTTPException 404 detail"] by auto
  from one two three show ?thesis by (intro conjI)
qed

section \<open>Document processor: pages or one error\<close>

text \<open>
  Claim C6. When the rasterizer raises, or the encoder raises on some page after the
  pages before it were encoded, \<^verbatim>\<open>process\<close> raises one exception whose message is
  \<open>Failed to process PDF: \<close> followed by the text of the exception that was raised, and
  whose cause is that exception; every failure of \<^verbatim>\<open>process\<close> has this form, and a
  failure carries no page. (The exceptions are those \<^verbatim>\<open>except Exception\<close> catches.)
\<close>

theorem process_failure_wrapped:
  "(\<forall>e. convert file_bytes (dpi self) (lower (image_format self)) = Inl e \<longrightarrow>
        process convert save self file_bytes
          = Inl (PyException (''Failed to process PDF: '' @ exc_str e) (Some e)))
   \<and> (\<forall>images k e. convert file_bytes (dpi self) (lower (image_format self)) = Inr images
          \<and> k < length images
          \<and> (\<forall>i<k. \<exists>bs. save (images ! i) (image_format self) = Inr bs)
          \<and> save (images ! k) (image_format self) = Inl e \<longrightarrow>
        process convert save self file_bytes
          = Inl (PyException (''Failed to process PDF: '' @ exc_str e) (Some e)))
   \<and> (\<forall>x. process convert save self file_bytes = Inl x \<longrightarrow>
        (\<exists>e. x = PyException (''Failed to process PDF: '' @ exc_str e) (Some e)
           \<and> exc_cause x = Some e
           \<and> sublist ''Failed to process'' (exc_str x) \<and> sublist (exc_str e) (exc_str x)))"
proof (intro conjI allI impI)
  fix e assume "convert file_bytes (dpi self) (lower (image_format self)) = Inl e"
  then show "process convert save self file_bytes
          = Inl (PyException (''Failed to process PDF: '' @ exc_str e) (Some e))"
    by (simp add: process_def)
next
  fix images k e
  assume a: "convert file_bytes (dpi self) (lower (image_format self)) = Inr images
          \<and> k < length images
          \<and> (\<forall>i<k. \<exists>bs. save (images ! i) (image_format self) = Inr bs)
          \<and> save (images ! k) (image_format self) = Inl e"
  then have "save_pages save (image_format self) images [] = Inl e"
    using save_pages_Inl[where save = save and fmt = "image_format self" and imgs = images
        and k = k and e = e and acc = "[]"] by blast
  with a show "process convert save self file_bytes
          = Inl (PyException (''Failed to process PDF: '' @ exc_str e) (Some e))"
    by (simp add: process_def)
next
  fix x assume "process convert save self file_bytes = Inl x"
  then obtain e where x: "x = PyException (''Failed to process PDF: '' @ exc_str e) (Some e)"
    by (auto simp: process_def split: sum.splits)
  have m: "exc_str x = ''Failed to process PDF: '' @ exc_str e" by (simp add: x)
  have "''Failed to process PDF: '' @ exc_str e = [] @ ''Failed to process'' @ ('' PDF: '' @ exc_str e)"
    by simp
  then have s1: "sublist ''Failed to process'' (exc_str x)"
    unfolding m by (metis sublist_appendI)
  have "''Failed to process PDF: '' @ exc_str e = ''Failed to process PDF: '' @ exc_str e @ []"
    by simp
  then have s2: "sublist (exc_str e) (exc_str x)"
    unfolding m by (metis sublist_appendI)
  from x s1 s2 show "\<exists>e. x = PyException (''Failed to process PDF: '' @ exc_str e) (Some e)
           \<and> exc_cause x = Some e
           \<and> sublist ''Failed to process'' (exc_str x) \<and> sublist (exc_str e) (exc_str x)"
    by auto
qed

theorem process_failure_wrapped_witness:
  "process ex_convert ex_save get_document_processor []
     = Inl (PyException ''Failed to process PDF: Unable to get page count.''
              (Some (PyException ''Unable to get page count.'' None)))
   \<and> process ex_convert ex_save get_document_processor ''abcd''
     = Inl (PyException ''Failed to process PDF: cannot write mode''
              (Some (PyException ''cannot write mode'' None)))"
proof -
  let ?p = get_document_processor
  have c0: "ex_convert [] (dpi ?p) (lower (image_format ?p))
              = Inl (PyException ''Unable to get page count.'' None)"
    by (simp add: ex_convert_def)
  have c4: "ex_convert ''abcd'' (dpi ?p) (lower (image_format ?p)) = Inr [0, 1, 2, 3]
          \<and> 2 < length [0, 1, 2, 3::nat]
          \<and> (\<forall>i<2. \<exists>bs. ex_save ([0, 1, 2, 3] ! i) (image_format ?p) = Inr bs)
          \<and> ex_save ([0, 1, 2, 3] ! 2) (image_format ?p) = Inl (PyException ''cannot write mode'' None)"
    by (simp add: ex_convert_def ex_save_def upt_rec less_Suc_eq numeral_2_eq_2)
  from process_failure_wrapped[of ex_convert "[]" ?p ex_save] c0
  have one: "process ex_convert ex_save ?p []
     = Inl (PyException (''Failed to process PDF: '' @ exc_str (PyException ''Unable to get page count.'' None))
              (Some (PyException ''Unable to get page count.'' None)))"
    by blast
  from process_failure_wrapped[of ex_convert "''abcd''" ?p ex_save] c4
  have two: "process ex_convert ex_save ?p ''abcd''
     = Inl (PyException (''Failed to process PDF: '' @ exc_str (PyException ''cannot write mode'' None))
              (Some (PyException ''cannot write mode'' None)))"
    by blast
  from one two show ?thesis by simp
qed

text \<open>
  Claim C7. When the rasterizer, called with the configured resolution and the
  lower-cased format, returns \<open>N\<close> images and the encoder encodes each of them in the
  configured format, \<^verbatim>\<open>process\<close> returns \<open>N\<close> byte sequences, the \<open>i\<close>-th being the encoding
  of the \<open>i\<close>-th image. The processor of \<^verbatim>\<open>get_document_processor\<close> has resolution 300 and
  format \<open>PNG\<close>.
\<close>

theorem process_pages:
  assumes "convert file_bytes (dpi self) (lower (image_format self)) = Inr images"
    and "\<forall>i<length images. \<exists>bs. save (images ! i) (image_format self) = Inr bs"
  shows "\<exists>out. process convert save self file_bytes = Inr out
           \<and> length out = length images
           \<and> (\<forall>i<length images. save (images ! i) (image_format self) = Inr (out ! i))
           \<and> dpi get_document_processor = 300
           \<and> image_format get_document_processor = ''PNG''
           \<and> lower (image_format get_document_processor) = ''png''"
proof -
  from save_pages_total[where save = save and fmt = "image_format self" and imgs = images
      and acc = "[]", OF assms(2)]
  obtain out where out: "save_pages save (image_format self) images [] = Inr out" ..
  from save_pages_Inr[OF out]
  have "length out = length images"
    "\<forall>i<length images. save (images ! i) (image_format self) = Inr (out ! i)"
    by simp_all
  moreover have "process convert save self file_bytes = Inr out"
    by (simp add: process_def assms(1) out)
  moreover have "dpi get_document_processor = 300"
    "image_format get_document_processor = ''PNG''"
    by (simp_all add: get_document_processor_def)
  moreover have "lower (image_format get_document_processor) = ''png''"
    by code_simp
  ultimately show ?thesis by blast
qed

theorem process_pages_witness:
  "process ex_convert ex_save get_document_processor ''ab'' = Inr [''PNG'', ''PNG.'']"
proof -
  let ?p = get_document_processor
  have c: "ex_convert ''ab'' (dpi ?p) (lower (image_format ?p)) = Inr [0, 1]"
    by (simp add: ex_convert_def upt_rec)
  have sv: "\<forall>i<length [0, 1::nat]. \<exists>bs. ex_save ([0, 1] ! i) (image_format ?p) = Inr bs"
    by (simp add: ex_save_def less_Suc_eq)
  from process_pages[where convert = ex_convert and save = ex_save and self = "?p"
      and file_bytes = "''ab''" and images = "[0, 1]", OF c sv]
  obtain out where o: "process ex_convert ex_save ?p ''ab'' = Inr out"
    and l: "length out = length [0, 1::nat]"
    and n: "\<forall>i<length [0, 1::nat]. ex_save ([0, 1] ! i) (image_format ?p) = Inr (out ! i)"
    by blast
  from n have "out ! 0 = ''PNG''" "out ! 1 = ''PNG.''"
    by (auto simp: ex_save_def get_document_processor_def less_Suc_eq)
  with l have "out = [''PNG'', ''PNG.'']"
    by (cases out; cases "tl out") auto
  with o show ?thesis by simp
qed

section \<open>Two workers incrementing one job\<close>

text \<open>
  Claim C10. Two calls of \<^verbatim>\<open>increment_progress\<close> on one job, each reporting a success,
  whose requests reach the store in the order read, read, write, write: both calls
  return a job, and the stored \<open>pages_succeeded\<close> has grown by one, not two, since the
  second write replaces the whole progress object with one merged from the job read before
  the first write. Run one after the other, the same two calls add two.
\<close>

theorem increments_can_be_lost:
  assumes present: "get_by_id j_id (ingest_jobs s) jid = Inr (Some job)"
    and succ: "dict_get (j_progress job) ''pages_succeeded'' (JInt 0) = JInt ns"
    and fail: "dict_get (j_progress job) ''pages_failed'' (JInt 0) = JInt nf"
    and errs: "dict_get (j_progress job) ''errors'' (JList []) = JList es"
  shows "(\<exists>s2 jA jB.
            run_schedule [0, 1, 0, 1] (s, [Start jid ppA ptA stA None, Start jid ppB ptB stB None])
              = (s2, [Done (Inr jA), Done (Inr jB)])
          \<and> counted s2 jid = [JInt (ns + 1), JInt nf])
       \<and> (\<exists>s2 jA jB.
            run_schedule [0, 0, 1, 1] (s, [Start jid ppA ptA stA None, Start jid ppB ptB stB None])
              = (s2, [Done (Inr jA), Done (Inr jB)])
          \<and> counted s2 jid = [JInt (ns + 2), JInt nf])
       \<and> counted s jid = [JInt ns, JInt nf]"
proof (intro conjI)
  from merge_progress_ok[OF succ fail errs, of ppA ptA stA None]
  obtain pA where mA: "merge_progress job ppA ptA stA None = Inr pA"
    and sA: "dict_get pA ''pages_succeeded'' (JInt 0) = JInt (ns + 1)"
    and fA: "dict_get pA ''pages_failed'' (JInt 0) = JInt nf"
    and eA: "dict_get pA ''errors'' (JList []) = JList es"
    by (auto simp: truthy_str_def)
  from merge_progress_ok[OF succ fail errs, of ppB ptB stB None]
  obtain pB where mB: "merge_progress job ppB ptB stB None = Inr pB"
    and sB: "dict_get pB ''pages_succeeded'' (JInt 0) = JInt (ns + 1)"
    and fB: "dict_get pB ''pages_failed'' (JInt 0) = JInt nf"
    by (auto simp: truthy_str_def)
  have neA: "job_update_data None None (Some pA) None \<noteq> []"
    and neB: "job_update_data None None (Some pB) None \<noteq> []"
    by (simp_all add: job_update_data_empty)
  define jobA where "jobA = written None None (Some pA) None job"
  define s1 where "s1 = snd (update_job s jid None None (Some pA) None)"
  have uA: "update_job s jid None None (Some pA) None = (Inr jobA, s1)"
    using update_job_present(1)[OF present neA] by (simp add: jobA_def s1_def)
  have present1: "get_by_id j_id (ingest_jobs s1) jid = Inr (Some jobA)"
    using update_job_present(2)[OF present neA] by (simp add: jobA_def s1_def)
  have progA: "j_progress jobA = pA" by (simp add: jobA_def written_def)
  \<comment> \<open>the second worker writes what it merged into the job it read before the first write\<close>
  define jobB where "jobB = written None None (Some pB) None jobA"
  define s2 where "s2 = snd (update_job s1 jid None None (Some pB) None)"
  have uB: "update_job s1 jid None None (Some pB) None = (Inr jobB, s2)"
    using update_job_present(1)[OF present1 neB] by (simp add: jobB_def s2_def)
  have present2: "get_by_id j_id (ingest_jobs s2) jid = Inr (Some jobB)"
    using update_job_present(2)[OF present1 neB] by (simp add: jobB_def s2_def)
  have progB: "j_progress jobB = pB" by (simp add: jobB_def written_def)
  have run: "run_schedule [0, 1, 0, 1] (s, [Start jid ppA ptA stA None, Start jid ppB ptB stB None])
              = (s2, [Done (Inr jobA), Done (Inr jobB)])"
    by (simp add: present mA mB uA uB)
  have "counted s2 jid = [JInt (ns + 1), JInt nf]"
    by (simp add: counted_present[OF present2] progB sB fB)
  with run show "\<exists>s2 jA jB.
            run_schedule [0, 1, 0, 1] (s, [Start jid ppA ptA stA None, Start jid ppB ptB stB None])
              = (s2, [Done (Inr jA), Done (Inr jB)])
          \<and> counted s2 jid = [JInt (ns + 1), JInt nf]"
    by blast
  \<comment> \<open>one after the other, the second worker reads what the first wrote\<close>
  from merge_progress_ok[of jobA "ns + 1" nf es ppB ptB stB None] sA fA eA
  obtain pC where mC: "merge_progress jobA ppB ptB stB None = Inr pC"
    and sC: "dict_get pC ''pages_succeeded'' (JInt 0) = JInt (ns + 2)"
    and fC: "dict_get pC ''pages_failed'' (JInt 0) = JInt nf"
    by (auto simp: truthy_str_def progA)
  have neC: "job_update_data None None (Some pC) None \<noteq> []"
    by (simp add: job_update_data_empty)
  define jobC where "jobC = written None None (Some pC) None jobA"
  define s3 where "s3 = snd (update_job s1 jid None None (Some pC) None)"
  have uC: "update_job s1 jid None None (Some pC) None = (Inr jobC, s3)"
    using update_job_present(1)[OF present1 neC] by (simp add: jobC_def s3_def)
  have present3: "get_by_id j_id (ingest_jobs s3) jid = Inr (Some jobC)"
    using update_job_present(2)[OF present1 neC] by (simp add: jobC_def s3_def)
  have progC: "j_progress jobC = pC" by (simp add: jobC_def written_def)
  have run': "run_schedule [0, 0, 1, 1] (s, [Start jid ppA ptA stA None, Start jid ppB ptB stB None])
              = (s3, [Done (Inr jobA), Done (Inr jobC)])"
    by (simp add: present mA uA present1 mC uC)
  have "counted s3 jid = [JInt (ns + 2), JInt nf]"
    by (simp add: counted_present[OF present3] progC sC fC)
  with run' show "\<exists>s2 jA jB.
            run_schedule [0, 0, 1, 1] (s, [Start jid ppA ptA stA None, Start jid ppB ptB stB None])
              = (s2, [Done (Inr jA), Done (Inr jB)])
          \<and> counted s2 jid = [JInt (ns + 2), JInt nf]"
    by blast
  show "counted s jid = [JInt ns, JInt nf]"
    by (simp add: counted_present[OF present] succ fail)
qed

theorem increments_can_be_lost_witness:
  "(\<exists>s2 jA jB.
      run_schedule [0, 1, 0, 1]
        (ex_store, [Start ''job-1'' 5 10 ''ocr'' None, Start ''job-1'' 6 10 ''ocr'' None])
        = (s2, [Done (Inr jA), Done (Inr jB)])
    \<and> counted s2 ''job-1'' = [JInt 5, JInt 0])
   \<and> counted ex_store ''job-1'' = [JInt 4, JInt 0]"
proof -
  have h2: "dict_get (j_progress ex_job) ''pages_succeeded'' (JInt 0) = JInt 4"
    and h3: "dict_get (j_progress ex_job) ''pages_failed'' (JInt 0) = JInt 0"
    and h4: "dict_get (j_progress ex_job) ''errors'' (JList []) = JList []"
    by (simp_all add: ex_job_def dict_get_def)
  from increments_can_be_lost[OF ex_job_present h2 h3 h4, of 5 10 "''ocr''" 6 10 "''ocr''"]
  show ?thesis by simp
qed

end
